theory Spec2Isabelle
  imports Main "HOL-Library.Sublist"
begin

section \<open>Python values, exceptions and observable events\<close>

text \<open>
  The script \<^verbatim>\<open>setup_nba_lake.py\<close> talks to three AWS services through boto3, to an
  HTTP endpoint through requests, and to the console through \<^verbatim>\<open>print\<close>. The model
  makes every such effect an event of a trace, and takes the answer of every external
  call from an environment, so that each function of the script is a function from the
  environment to a result and the events it produced.
\<close>

text \<open>
  Values decoded from JSON (\<^verbatim>\<open>response.json()\<close>, the rows of a boto3 response). Python's
  \<^verbatim>\<open>None\<close> is \<open>JNull\<close>; numbers are restricted to Python ints; a dict is the list of its
  items in insertion order.
\<close>

datatype json =
    JNull
  | JBool bool
  | JInt int
  | JStr string
  | JArr "json list"
  | JObj "(string \<times> json) list"

text \<open>Python's truth value testing, as \<^verbatim>\<open>if nba_data:\<close> applies it.\<close>

fun truthy :: "json \<Rightarrow> bool" where
  "truthy JNull = False"
| "truthy (JBool b) = b"
| "truthy (JInt n) = (n \<noteq> 0)"
| "truthy (JStr s) = (s \<noteq> [])"
| "truthy (JArr xs) = (xs \<noteq> [])"
| "truthy (JObj kvs) = (kvs \<noteq> [])"

text \<open>
  The exception classes the script's handlers tell apart: botocore's \<^verbatim>\<open>ClientError\<close>,
  requests' \<^verbatim>\<open>HTTPError\<close>, and every other subclass of \<^verbatim>\<open>Exception\<close> (a connection
  error of requests, a \<^verbatim>\<open>BotoCoreError\<close>, a \<^verbatim>\<open>TypeError\<close>, ...). Each carries the text
  that \<^verbatim>\<open>str(e)\<close> gives.
\<close>

datatype exn = ClientError string | HTTPError string | OtherError string

fun str_exn :: "exn \<Rightarrow> string" where
  "str_exn (ClientError m) = m"
| "str_exn (HTTPError m) = m"
| "str_exn (OtherError m) = m"

fun is_ClientError :: "exn \<Rightarrow> bool" where
  "is_ClientError (ClientError m) = True"
| "is_ClientError e = False"

fun is_HTTPError :: "exn \<Rightarrow> bool" where
  "is_HTTPError (HTTPError m) = True"
| "is_HTTPError e = False"

text \<open>\<^verbatim>\<open>except Exception\<close> catches every exception of the model.\<close>

fun is_Exception :: "exn \<Rightarrow> bool" where
  "is_Exception e = True"

text \<open>What an external call does: it returns a value or raises.\<close>

datatype 'a outcome = Returns 'a | Raises exn

text \<open>
  The \<^verbatim>\<open>TableInput\<close> argument of \<^verbatim>\<open>glue_client.create_table\<close>, and the response of
  \<^verbatim>\<open>requests.get\<close>: its status code, the text requests puts into the \<^verbatim>\<open>HTTPError\<close> of
  \<^verbatim>\<open>raise_for_status\<close>, and the decoded body (\<open>None\<close> when the body is not JSON).
\<close>

record table_input =
  Name :: string
  Columns :: "(string \<times> string) list"
  Location :: string
  InputFormat :: string
  OutputFormat :: string
  SerializationLibrary :: string
  TableType :: string

record response =
  status_code :: int
  error_text :: string
  json_body :: "json option"

text \<open>
  The events of a run, in the order the script produces them. \<open>Boto3Client s r\<close> is the
  construction \<^verbatim>\<open>boto3.client(s, region_name=r)\<close> of a client at module level, which
  calls no service. \<open>PrintHeaders k\<close> is the
  debugging line \<^verbatim>\<open>Request Headers: {...}\<close> for the credential \<open>k\<close>, and \<open>PrintRow r\<close> is
  \<^verbatim>\<open>print(row)\<close>; both print Python's \<^verbatim>\<open>repr\<close> of a dict, which is left uninterpreted.
\<close>

datatype event =
    Print string
  | Boto3Client string string
  | PrintHeaders "string option"
  | PrintRow json
  | Sleep nat
  | CreateBucket string string
  | CreateDatabase string string
  | HttpGet "string option" "string option"
  | PutObject string string string
  | CreateTable string table_input
  | StartQueryExecution string string string
  | GetQueryExecution string
  | GetQueryResults string

text \<open>
  The environment of a run: the three variables \<^verbatim>\<open>os.getenv\<close> reads after
  \<^verbatim>\<open>load_dotenv()\<close>, and the answer of every library call, as a function of the call's
  arguments. \<open>boto3_client env s r\<close> answers the construction of a client of the service
  \<open>s\<close> for the region \<open>r\<close> (botocore raises for a region name it cannot use), and
  \<open>get_query_execution env qid i\<close> answers the \<open>i\<close>-th poll (from 0) of the query \<open>qid\<close>.
\<close>

record env =
  AWS_DEFAULT_REGION :: "string option"
  SPORTS_DATA_API_KEY :: "string option"
  NBA_ENDPOINT :: "string option"
  boto3_client :: "string \<Rightarrow> string \<Rightarrow> unit outcome"
  create_bucket :: "string \<Rightarrow> string \<Rightarrow> unit outcome"
  create_database :: "string \<Rightarrow> string \<Rightarrow> unit outcome"
  requests_get :: "string option \<Rightarrow> string option \<Rightarrow> response outcome"
  json_dumps :: "json \<Rightarrow> string"
  put_object :: "string \<Rightarrow> string \<Rightarrow> string \<Rightarrow> unit outcome"
  create_table :: "string \<Rightarrow> table_input \<Rightarrow> unit outcome"
  start_query_execution :: "string \<Rightarrow> string \<Rightarrow> string \<Rightarrow> string outcome"
  get_query_execution :: "string \<Rightarrow> nat \<Rightarrow> string outcome"
  get_query_results :: "string \<Rightarrow> json list outcome"

section \<open>Results with a trace\<close>

text \<open>
  A piece of the script evaluates to a value, raises, or is still inside the polling
  loop when the fuel of the model runs out (\<open>Running\<close>); in each case with the events it
  produced so far.
\<close>

datatype 'a result = Value 'a | Raised exn | Running

type_synonym 'a run = "'a result \<times> event list"

definition ret :: "'a \<Rightarrow> 'a run" where
  "ret v = (Value v, [])"

definition throw :: "exn \<Rightarrow> 'a run" where
  "throw e = (Raised e, [])"

definition say :: "string \<Rightarrow> unit run" where
  "say s = (Value (), [Print s])"

definition sleep :: "nat \<Rightarrow> unit run" where
  "sleep n = (Value (), [Sleep n])"

definition call :: "event \<Rightarrow> 'a outcome \<Rightarrow> 'a run" where
  "call ev out = ((case out of Returns v \<Rightarrow> Value v | Raises e \<Rightarrow> Raised e), [ev])"

text \<open>Sequencing: the second statement runs only when the first returned.\<close>

definition and_then :: "'a run \<Rightarrow> ('a \<Rightarrow> 'b run) \<Rightarrow> 'b run" where
  "and_then m f =
     (case fst m of
        Value a \<Rightarrow> (fst (f a), snd m @ snd (f a))
      | Raised e \<Rightarrow> (Raised e, snd m)
      | Running \<Rightarrow> (Running, snd m))"

text \<open>\<^verbatim>\<open>try: m except C as e: h(e)\<close>: the handler runs for the exceptions of class \<open>C\<close> only.\<close>

definition try_except :: "'a run \<Rightarrow> (exn \<Rightarrow> bool) \<Rightarrow> (exn \<Rightarrow> 'a run) \<Rightarrow> 'a run" where
  "try_except m catches h =
     (case fst m of
        Raised e \<Rightarrow> (if catches e then (fst (h e), snd m @ snd (h e)) else (Raised e, snd m))
      | Value a \<Rightarrow> (Value a, snd m)
      | Running \<Rightarrow> (Running, snd m))"

section \<open>Module-level configuration\<close>

definition region :: "env \<Rightarrow> string" where
  "region env = (case AWS_DEFAULT_REGION env of None \<Rightarrow> ''ap-southeast-2'' | Some r \<Rightarrow> r)"

definition bucket_name :: string where
  "bucket_name = ''bai-xu-sports-analytics-data-lake''"

definition glue_database_name :: string where
  "glue_database_name = ''xu-glue_nba_data_lake''"

definition glue_table_name :: string where
  "glue_table_name = ''nba_players''"

definition athena_output_location :: string where
  "athena_output_location = ''s3://'' @ bucket_name @ ''/athena-results/''"

definition api_key :: "env \<Rightarrow> string option" where
  "api_key env = SPORTS_DATA_API_KEY env"

definition nba_endpoint :: "env \<Rightarrow> string option" where
  "nba_endpoint env = NBA_ENDPOINT env"

text \<open>The two quote characters of the script's messages, and the newline.\<close>

definition squote :: string where
  "squote = [CHR 0x27]"

definition dquote :: string where
  "dquote = [CHR 0x22]"

definition newline :: string where
  "newline = [CHR 0x0A]"

text \<open>An f-string field of a value that may be \<^verbatim>\<open>None\<close>.\<close>

fun str_opt :: "string option \<Rightarrow> string" where
  "str_opt None = ''None''"
| "str_opt (Some s) = s"

section \<open>The functions of the script\<close>

text \<open>
  \<^verbatim>\<open>create_s3_bucket\<close> builds a client of its own (line 35) for the service and the region
  of the module-level \<^verbatim>\<open>s3_client\<close>, which was built before \<^verbatim>\<open>main\<close> is entered; the
  answer \<open>create_bucket env bucket reg\<close> is that of the call made through it.
\<close>

definition create_s3_bucket :: "env \<Rightarrow> string \<Rightarrow> string \<Rightarrow> unit run" where
  "create_s3_bucket env bucket reg =
     try_except
       (and_then (call (CreateBucket bucket reg) (create_bucket env bucket reg)) (\<lambda>_.
          say (''Bucket '' @ bucket @ '' created successfully.'')))
       is_ClientError
       (\<lambda>e. say (''Error while creating bucket: '' @ str_exn e))"

definition create_glue_database :: "env \<Rightarrow> unit run" where
  "create_glue_database env =
     try_except
       (and_then
          (call (CreateDatabase glue_database_name ''Glue database for NBA sports analytics.'')
             (create_database env glue_database_name ''Glue database for NBA sports analytics.''))
          (\<lambda>_. say (''Glue database '' @ squote @ glue_database_name @ squote
                      @ '' created successfully.'')))
       is_Exception
       (\<lambda>e. say (''Error creating Glue database: '' @ str_exn e))"

text \<open>
  \<^verbatim>\<open>response.raise_for_status()\<close>: the source's comment says it raises an \<^verbatim>\<open>HTTPError\<close>
  for the 4xx and 5xx responses. \<^verbatim>\<open>response.json()\<close> raises a decoding error, which is
  not an \<^verbatim>\<open>HTTPError\<close>, when the body is not JSON.
\<close>

definition raise_for_status :: "response \<Rightarrow> unit run" where
  "raise_for_status r =
     (if 400 \<le> status_code r \<and> status_code r < 600 then throw (HTTPError (error_text r))
      else ret ())"

definition response_json :: "response \<Rightarrow> json run" where
  "response_json r =
     (case json_body r of
        None \<Rightarrow> throw (OtherError ''JSONDecodeError'')
      | Some j \<Rightarrow> ret j)"

definition fetch_nba_players :: "env \<Rightarrow> string option \<Rightarrow> string option \<Rightarrow> json run" where
  "fetch_nba_players env key endpoint =
     and_then (Value (), [PrintHeaders key]) (\<lambda>_.
       try_except
         (and_then (call (HttpGet endpoint key) (requests_get env endpoint key)) (\<lambda>resp.
          and_then (raise_for_status resp) (\<lambda>_.
            response_json resp)))
         is_HTTPError
         (\<lambda>err. and_then (say (''Error while fetching NBA players data: '' @ str_exn err)) (\<lambda>_.
            ret JNull)))"

text \<open>\<^verbatim>\<open>sep.join(parts)\<close> of Python.\<close>

fun str_join :: "string \<Rightarrow> string list \<Rightarrow> string" where
  "str_join sep [] = []"
| "str_join sep [x] = x"
| "str_join sep (x # y # ys) = x @ sep @ str_join sep (y # ys)"

text \<open>
  What \<^verbatim>\<open>for record in data\<close> iterates over: the elements of a list, the keys of a dict,
  the characters of a string; any other value is not iterable.
\<close>

fun py_iter :: "json \<Rightarrow> json list run" where
  "py_iter (JArr xs) = ret xs"
| "py_iter (JObj kvs) = ret (map (\<lambda>kv. JStr (fst kv)) kvs)"
| "py_iter (JStr s) = ret (map (\<lambda>c. JStr [c]) s)"
| "py_iter JNull = throw (OtherError (squote @ ''NoneType'' @ squote @ '' object is not iterable''))"
| "py_iter (JBool b) = throw (OtherError (squote @ ''bool'' @ squote @ '' object is not iterable''))"
| "py_iter (JInt n) = throw (OtherError (squote @ ''int'' @ squote @ '' object is not iterable''))"

text \<open>\<open>dumps\<close> is \<^verbatim>\<open>json.dumps\<close>, a parameter of the model.\<close>

definition convert_to_line_delimited_json :: "(json \<Rightarrow> string) \<Rightarrow> json \<Rightarrow> string run" where
  "convert_to_line_delimited_json dumps data =
     and_then (say ''Converting data to line-delimited JSON format...'') (\<lambda>_.
     and_then (py_iter data) (\<lambda>records.
       ret (str_join newline (map dumps records))))"

definition file_key :: string where
  "file_key = ''raw-data/nba_player_data.jsonl''"

definition upload_data_to_s3 :: "env \<Rightarrow> json \<Rightarrow> unit run" where
  "upload_data_to_s3 env data =
     try_except
       (and_then (convert_to_line_delimited_json (json_dumps env) data) (\<lambda>line_delimited_data.
        and_then (call (PutObject bucket_name file_key line_delimited_data)
                    (put_object env bucket_name file_key line_delimited_data)) (\<lambda>_.
          say (''Uploaded data to S3: '' @ file_key))))
       is_Exception
       (\<lambda>e. say (''Error uploading data to S3: '' @ str_exn e))"

definition nba_players_table :: table_input where
  "nba_players_table =
     \<lparr> Name = ''nba_players'',
       Columns = [(''PlayerID'', ''int''), (''FirstName'', ''string''), (''LastName'', ''string''),
                  (''Team'', ''string''), (''Position'', ''string''), (''Points'', ''int'')],
       Location = ''s3://'' @ bucket_name @ ''/raw-data/'',
       InputFormat = ''org.apache.hadoop.mapred.TextInputFormat'',
       OutputFormat = ''org.apache.hadoop.hive.ql.io.HiveIgnoreKeyTextOutputFormat'',
       SerializationLibrary = ''org.openx.data.jsonserde.JsonSerDe'',
       TableType = ''EXTERNAL_TABLE'' \<rparr>"

definition create_glue_table :: "env \<Rightarrow> unit run" where
  "create_glue_table env =
     try_except
       (and_then (call (CreateTable glue_database_name nba_players_table)
                    (create_table env glue_database_name nba_players_table)) (\<lambda>_.
          say (''Glue table '' @ squote @ ''nba_players'' @ squote @ '' created successfully.'')))
       is_Exception
       (\<lambda>e. say (''Error creating Glue table: '' @ str_exn e))"

definition configure_athena :: "env \<Rightarrow> unit run" where
  "configure_athena env =
     try_except
       (and_then
          (call (StartQueryExecution ''CREATE DATABASE IF NOT EXISTS nba_analytics''
                   glue_database_name athena_output_location)
             (start_query_execution env ''CREATE DATABASE IF NOT EXISTS nba_analytics''
                glue_database_name athena_output_location))
          (\<lambda>_. say ''Athena output location configured successfully.''))
       is_Exception
       (\<lambda>e. say (''Error configuring Athena: '' @ str_exn e))"

text \<open>
  The polling loop of \<^verbatim>\<open>query_athena\<close>: \<^verbatim>\<open>while True\<close>, one poll and, unless the state
  is one of the three terminal ones, one second of sleep. The loop has no bound in the
  source; the model gives it fuel, one unit for each poll, and answers \<open>Running\<close> when the
  fuel is used up.
\<close>

definition terminal_states :: "string list" where
  "terminal_states = [''SUCCEEDED'', ''FAILED'', ''CANCELLED'']"

fun wait_loop :: "nat \<Rightarrow> env \<Rightarrow> string \<Rightarrow> nat \<Rightarrow> string run" where
  "wait_loop 0 env qid i = (Running, [])"
| "wait_loop (Suc fuel) env qid i =
     and_then (call (GetQueryExecution qid) (get_query_execution env qid i)) (\<lambda>query_state.
       if query_state \<in> set terminal_states then ret query_state
       else and_then (sleep 1) (\<lambda>_. wait_loop fuel env qid (Suc i)))"

definition count_query :: "string \<Rightarrow> string \<Rightarrow> string" where
  "count_query database table =
     ''SELECT COUNT(*) FROM '' @ dquote @ database @ dquote @ ''.'' @ dquote @ table @ dquote @ '';''"

definition query_athena :: "nat \<Rightarrow> env \<Rightarrow> string \<Rightarrow> string \<Rightarrow> string \<Rightarrow> json list option run" where
  "query_athena fuel env database table output_location =
     try_except
       (and_then
          (call (StartQueryExecution (count_query database table) database output_location)
             (start_query_execution env (count_query database table) database output_location))
          (\<lambda>query_execution_id.
        and_then (say (''Query Execution ID: '' @ query_execution_id)) (\<lambda>_.
        and_then (wait_loop fuel env query_execution_id 0) (\<lambda>query_state.
          if query_state = ''SUCCEEDED'' then
            and_then (call (GetQueryResults query_execution_id)
                        (get_query_results env query_execution_id)) (\<lambda>rows.
              ret (Some rows))
          else
            and_then (say (''Query failed with state: '' @ query_state)) (\<lambda>_.
              ret None)))))
       is_ClientError
       (\<lambda>e. and_then (say (''Error while querying Athena: '' @ str_exn e)) (\<lambda>_. ret None))"

text \<open>The truth value of \<^verbatim>\<open>athena_results\<close>: \<^verbatim>\<open>None\<close> and the empty list are false.\<close>

fun truthy_rows :: "json list option \<Rightarrow> bool" where
  "truthy_rows None = False"
| "truthy_rows (Some rows) = (rows \<noteq> [])"

fun print_rows :: "json list option \<Rightarrow> unit run" where
  "print_rows None = throw (OtherError (squote @ ''NoneType'' @ squote @ '' object is not iterable''))"
| "print_rows (Some rows) = (Value (), map PrintRow rows)"

definition main :: "nat \<Rightarrow> env \<Rightarrow> unit run" where
  "main fuel env =
     and_then (say ''Setting up data lake for NBA sports analytics...'') (\<lambda>_.
     and_then (create_s3_bucket env bucket_name (region env)) (\<lambda>_.
     and_then (sleep 5) (\<lambda>_.
     and_then (create_glue_database env) (\<lambda>_.
     and_then (fetch_nba_players env (api_key env) (nba_endpoint env)) (\<lambda>nba_data.
     and_then (if truthy nba_data then upload_data_to_s3 env nba_data else ret ()) (\<lambda>_.
     and_then (create_glue_table env) (\<lambda>_.
     and_then (configure_athena env) (\<lambda>_.
     and_then (say ''Data lake setup complete.'') (\<lambda>_.
     and_then (query_athena fuel env glue_database_name glue_table_name athena_output_location)
       (\<lambda>athena_results.
         if truthy_rows athena_results then
           and_then (say ''Athena query results:'') (\<lambda>_. print_rows athena_results)
         else say ''Failed to query Athena.''))))))))))"

text \<open>
  Running the file: the module-level \<^verbatim>\<open>print\<close> of the loaded key, the construction of
  the three module-level clients (lines 27 to 29), then \<^verbatim>\<open>main()\<close>. An exception raised
  at module level is not caught and ends the program before \<^verbatim>\<open>main\<close>.
\<close>

definition program :: "nat \<Rightarrow> env \<Rightarrow> unit run" where
  "program fuel env =
     and_then (say (''Loaded API Key: '' @ str_opt (api_key env))) (\<lambda>_.
     and_then (call (Boto3Client ''s3'' (region env)) (boto3_client env ''s3'' (region env))) (\<lambda>_.
     and_then (call (Boto3Client ''glue'' (region env)) (boto3_client env ''glue'' (region env))) (\<lambda>_.
     and_then (call (Boto3Client ''athena'' (region env)) (boto3_client env ''athena'' (region env))) (\<lambda>_.
       main fuel env))))"

section \<open>Measures used to state the properties\<close>

text \<open>
  The lines of a payload: its maximal newline-free pieces, a newline character between
  each two (the result of splitting the payload at every newline).
\<close>

fun lines_of :: "string \<Rightarrow> string list" where
  "lines_of [] = [[]]"
| "lines_of (c # cs) =
     (if c = CHR 0x0A then [] # lines_of cs
      else (case lines_of cs of [] \<Rightarrow> [[c]] | l # ls \<Rightarrow> (c # l) # ls))"

fun is_GetQueryResults :: "event \<Rightarrow> bool" where
  "is_GetQueryResults (GetQueryResults qid) = True"
| "is_GetQueryResults ev = False"

fun is_PutObject :: "event \<Rightarrow> bool" where
  "is_PutObject (PutObject b k body) = True"
| "is_PutObject ev = False"

text \<open>The events of \<open>k\<close> polls that found the query still running, and of one last poll.\<close>

definition poll_trace :: "string \<Rightarrow> nat \<Rightarrow> event list" where
  "poll_trace qid k =
     concat (replicate k [GetQueryExecution qid, Sleep 1]) @ [GetQueryExecution qid]"

text \<open>The address of the object \<open>key\<close> of the bucket \<open>bucket\<close>.\<close>

definition s3_uri :: "string \<Rightarrow> string \<Rightarrow> string" where
  "s3_uri bucket key = ''s3://'' @ bucket @ ''/'' @ key"

text \<open>
  What the two storage events of a run must carry for the table and the upload to agree:
  the object goes to the key \<open>file_key\<close> of the configured bucket, and the table's
  location is the \<^verbatim>\<open>raw-data/\<close> prefix of that bucket.
\<close>

fun storage_consistent :: "event \<Rightarrow> bool" where
  "storage_consistent (PutObject b k body) = (b = bucket_name \<and> k = file_key)"
| "storage_consistent (CreateTable d t) = (Location t = s3_uri bucket_name ''raw-data/'')"
| "storage_consistent ev = True"

section \<open>Stubs of the external services\<close>

text \<open>
  An environment in which every call succeeds: the endpoint answers 200 with two
  records, and the poll answers the listed states in turn, then the last one for ever.
\<close>

definition stub_polls :: "string list \<Rightarrow> nat \<Rightarrow> string outcome" where
  "stub_polls sts i = Returns (if i < length sts then sts ! i else last sts)"

definition player :: "int \<Rightarrow> json" where
  "player n = JObj [(''PlayerID'', JInt n)]"

definition stub_response :: response where
  "stub_response =
     \<lparr> status_code = 200, error_text = [], json_body = Some (JArr [player 1, player 2]) \<rparr>"

text \<open>\<^verbatim>\<open>json.dumps\<close> on the two records of the stub.\<close>

definition stub_dumps :: "json \<Rightarrow> string" where
  "stub_dumps j =
     (if j = player 1 then ''{'' @ dquote @ ''PlayerID'' @ dquote @ '': 1}''
      else if j = player 2 then ''{'' @ dquote @ ''PlayerID'' @ dquote @ '': 2}''
      else ''null'')"

definition stub_env :: env where
  "stub_env = \<lparr>
     AWS_DEFAULT_REGION = None,
     SPORTS_DATA_API_KEY = Some ''key'',
     NBA_ENDPOINT = Some ''https://api.example/players'',
     boto3_client = (\<lambda>s r. Returns ()),
     create_bucket = (\<lambda>b r. Returns ()),
     create_database = (\<lambda>n d. Returns ()),
     requests_get = (\<lambda>u k. Returns stub_response),
     json_dumps = stub_dumps,
     put_object = (\<lambda>b k body. Returns ()),
     create_table = (\<lambda>d t. Returns ()),
     start_query_execution = (\<lambda>q d out. Returns ''q-1''),
     get_query_execution = (\<lambda>qid. stub_polls [''RUNNING'', ''RUNNING'', ''SUCCEEDED'']),
     get_query_results = (\<lambda>qid. Returns [JObj [(''Data'', JArr [JStr ''2''])]]) \<rparr>"

text \<open>Variants of the stub: one answer changed in each.\<close>

definition stub_env_failed :: env where
  "stub_env_failed = stub_env \<lparr> get_query_execution := (\<lambda>qid. stub_polls [''FAILED'']) \<rparr>"

definition stub_env_empty_rows :: env where
  "stub_env_empty_rows = stub_env \<lparr> get_query_results := (\<lambda>qid. Returns []) \<rparr>"

definition stub_env_exists :: env where
  "stub_env_exists =
     stub_env \<lparr> create_bucket := (\<lambda>b r. Raises (ClientError ''BucketAlreadyOwnedByYou'')) \<rparr>"

definition stub_env_unconfigured :: env where
  "stub_env_unconfigured =
     stub_env \<lparr> SPORTS_DATA_API_KEY := None, NBA_ENDPOINT := None,
       requests_get := (\<lambda>u k. Raises (OtherError ''MissingSchema'')) \<rparr>"

definition stub_env_empty_region :: env where
  "stub_env_empty_region =
     stub_env \<lparr> AWS_DEFAULT_REGION := Some [],
       boto3_client := (\<lambda>s r. if r = [] then Raises (OtherError ''ValueError'') else Returns ()) \<rparr>"

definition stub_env_offline :: env where
  "stub_env_offline =
     stub_env \<lparr> requests_get := (\<lambda>u k. Raises (OtherError ''ConnectionError'')) \<rparr>"

definition stub_env_not_modified :: env where
  "stub_env_not_modified =
     stub_env \<lparr> requests_get := (\<lambda>u k. Returns
       \<lparr> status_code = 304, error_text = [], json_body = None \<rparr>) \<rparr>"

definition stub_env_not_found :: env where
  "stub_env_not_found =
     stub_env \<lparr> requests_get := (\<lambda>u k. Returns
       \<lparr> status_code = 404, error_text = ''404 Client Error: Not Found'', json_body = None \<rparr>) \<rparr>"

definition stub_env_no_data :: env where
  "stub_env_no_data =
     stub_env \<lparr> requests_get := (\<lambda>u k. Returns
       \<lparr> status_code = 200, error_text = [], json_body = Some (JArr []) \<rparr>) \<rparr>"

definition stub_env_running :: env where
  "stub_env_running = stub_env \<lparr> get_query_execution := (\<lambda>qid. stub_polls [''RUNNING'']) \<rparr>"

text \<open>The upload is attempted and fails.\<close>

definition stub_env_upload_fails :: env where
  "stub_env_upload_fails =
     stub_env \<lparr> put_object := (\<lambda>b k body. Raises (ClientError ''NoSuchBucket'')) \<rparr>"

definition stub_env_no_credentials :: env where
  "stub_env_no_credentials =
     stub_env \<lparr> create_bucket := (\<lambda>b r. Raises (OtherError ''NoCredentialsError'')) \<rparr>"

text \<open>
  An environment in which every step fails in the way its handler catches, and the query
  ends in \<^verbatim>\<open>FAILED\<close>.
\<close>

definition stub_env_all_fail :: env where
  "stub_env_all_fail = \<lparr>
     AWS_DEFAULT_REGION = None,
     SPORTS_DATA_API_KEY = Some ''key'',
     NBA_ENDPOINT = Some ''https://api.example/players'',
     boto3_client = (\<lambda>s r. Returns ()),
     create_bucket = (\<lambda>b r. Raises (ClientError ''BucketAlreadyOwnedByYou'')),
     create_database = (\<lambda>n d. Raises (ClientError ''AlreadyExistsException'')),
     requests_get = (\<lambda>u k. Returns
       \<lparr> status_code = 500, error_text = ''500 Server Error'', json_body = None \<rparr>),
     json_dumps = stub_dumps,
     put_object = (\<lambda>b k body. Raises (ClientError ''NoSuchBucket'')),
     create_table = (\<lambda>d t. Raises (OtherError ''ParamValidationError'')),
     start_query_execution = (\<lambda>q d out.
       if q = ''CREATE DATABASE IF NOT EXISTS nba_analytics''
       then Raises (ClientError ''InvalidRequestException'') else Returns ''q-1''),
     get_query_execution = (\<lambda>qid. stub_polls [''RUNNING'', ''FAILED'']),
     get_query_results = (\<lambda>qid. Raises (ClientError ''InvalidRequestException'')) \<rparr>"

section \<open>Sequencing and handlers\<close>

lemma and_then_Value: "fst m = Value a \<Longrightarrow> and_then m f = (fst (f a), snd m @ snd (f a))"
  by (simp add: and_then_def)

lemma and_then_Raised: "fst m = Raised e \<Longrightarrow> and_then m f = (Raised e, snd m)"
  by (simp add: and_then_def)

lemma and_then_Running: "fst m = Running \<Longrightarrow> and_then m f = (Running, snd m)"
  by (simp add: and_then_def)

lemma and_then_simps:
  "and_then (Value a, t) f = (fst (f a), t @ snd (f a))"
  "and_then (Raised e, t) f = (Raised e, t)"
  "and_then (Running, t) f = (Running, t)"
  by (simp_all add: and_then_def)

lemma try_except_simps:
  "try_except (Value a, t) c h = (Value a, t)"
  "try_except (Running, t) c h = (Running, t)"
  "try_except (Raised e, t) c h = (if c e then (fst (h e), t @ snd (h e)) else (Raised e, t))"
  by (simp_all add: try_except_def)

lemmas run_simps = and_then_simps try_except_simps ret_def throw_def say_def sleep_def call_def

section \<open>The polling loop\<close>

lemma wait_loop_stops:
  "get_query_execution env qid (i + k) = Returns st \<Longrightarrow> st \<in> set terminal_states \<Longrightarrow>
   (\<forall>j<k. \<exists>s. get_query_execution env qid (i + j) = Returns s \<and> s \<notin> set terminal_states) \<Longrightarrow>
   k < fuel \<Longrightarrow>
   wait_loop fuel env qid i = (Value st, concat (replicate k [GetQueryExecution qid, Sleep 1]) @ [GetQueryExecution qid])"
proof (induction k arbitrary: i fuel)
  case 0
  then obtain n where "fuel = Suc n" by (cases fuel) auto
  with 0 show ?case by (simp add: run_simps)
next
  case (Suc k)
  then obtain n where n: "fuel = Suc n" by (cases fuel) auto
  from Suc.prems(3) obtain s where s: "get_query_execution env qid i = Returns s" "s \<notin> set terminal_states"
    by (metis add.right_neutral zero_less_Suc)
  have "wait_loop n env qid (Suc i) = (Value st, concat (replicate k [GetQueryExecution qid, Sleep 1]) @ [GetQueryExecution qid])"
  proof (rule Suc.IH)
    show "get_query_execution env qid (Suc i + k) = Returns st" using Suc.prems(1) by simp
    show "st \<in> set terminal_states" by fact
    show "\<forall>j<k. \<exists>s. get_query_execution env qid (Suc i + j) = Returns s \<and> s \<notin> set terminal_states"
      using Suc.prems(3) by (metis Suc_less_eq add_Suc_shift)
    show "k < n" using Suc.prems(4) n by simp
  qed
  with s n show ?case by (simp add: run_simps)
qed

lemma wait_loop_running:
  "(\<forall>j<fuel. \<exists>s. get_query_execution env qid (i + j) = Returns s \<and> s \<notin> set terminal_states) \<Longrightarrow>
   wait_loop fuel env qid i = (Running, concat (replicate fuel [GetQueryExecution qid, Sleep 1]))"
proof (induction fuel arbitrary: i)
  case 0
  then show ?case by simp
next
  case (Suc fuel)
  from Suc.prems obtain s where s: "get_query_execution env qid i = Returns s" "s \<notin> set terminal_states"
    by (metis add.right_neutral zero_less_Suc)
  have "wait_loop fuel env qid (Suc i) = (Running, concat (replicate fuel [GetQueryExecution qid, Sleep 1]))"
    by (rule Suc.IH) (use Suc.prems in \<open>metis Suc_less_eq add_Suc_shift\<close>)
  with s show ?case by (simp add: run_simps)
qed

lemma fst_and_then:
  "fst (and_then m f) = (case fst m of Value a \<Rightarrow> fst (f a) | Raised e \<Rightarrow> Raised e | Running \<Rightarrow> Running)"
  by (simp add: and_then_def split: result.splits)

lemma snd_and_then:
  "snd (and_then m f) = snd m @ (case fst m of Value a \<Rightarrow> snd (f a) | Raised e \<Rightarrow> [] | Running \<Rightarrow> [])"
  by (simp add: and_then_def split: result.splits)

lemma list_all_and_then:
  "list_all P (snd m) \<Longrightarrow> (\<And>a. list_all P (snd (f a))) \<Longrightarrow> list_all P (snd (and_then m f))"
  by (simp add: and_then_def split: result.splits)

lemma list_all_try_except:
  "list_all P (snd m) \<Longrightarrow> (\<And>e. list_all P (snd (h e))) \<Longrightarrow> list_all P (snd (try_except m c h))"
  by (simp add: try_except_def split: result.splits)

lemma list_all_basic:
  "list_all P (snd (ret v))"
  "list_all P (snd (throw e))"
  "P (Print s) \<Longrightarrow> list_all P (snd (say s))"
  "P (Sleep n) \<Longrightarrow> list_all P (snd (sleep n))"
  "P ev \<Longrightarrow> list_all P (snd (call ev out))"
  by (simp_all add: ret_def throw_def say_def sleep_def call_def)

lemmas list_all_run = list_all_and_then list_all_try_except list_all_basic

section \<open>The steps of the pipeline\<close>

lemma create_glue_database_returns: "fst (create_glue_database env) = Value ()"
  by (simp add: create_glue_database_def run_simps and_then_def try_except_def split: outcome.splits)

lemma py_iter_cases:
  "(\<exists>recs. py_iter d = (Value recs, [])) \<or> (\<exists>e. py_iter d = (Raised e, []))"
  by (cases d) (simp_all add: ret_def throw_def)

lemma convert_to_line_delimited_json_eq:
  "convert_to_line_delimited_json dumps d =
     (case fst (py_iter d) of
        Value recs \<Rightarrow> Value (str_join newline (map dumps recs))
      | Raised e \<Rightarrow> Raised e
      | Running \<Rightarrow> Running,
      [Print ''Converting data to line-delimited JSON format...''])"
  using py_iter_cases [of d]
  by (auto simp add: convert_to_line_delimited_json_def run_simps)

lemma convert_not_running: "fst (convert_to_line_delimited_json dumps d) \<noteq> Running"
  using py_iter_cases [of d] by (auto simp add: convert_to_line_delimited_json_eq)

lemma upload_data_to_s3_returns: "fst (upload_data_to_s3 env d) = Value ()"
  using convert_not_running [of "json_dumps env" d]
  by (auto simp add: upload_data_to_s3_def try_except_def and_then_def say_def call_def
      split: result.splits outcome.splits)

lemma create_glue_table_returns: "fst (create_glue_table env) = Value ()"
  by (simp add: create_glue_table_def run_simps and_then_def try_except_def split: outcome.splits)

lemma create_glue_table_trace: "hd (snd (create_glue_table env)) = CreateTable glue_database_name nba_players_table"
  by (simp add: create_glue_table_def run_simps and_then_def try_except_def split: outcome.splits)

lemma configure_athena_returns: "fst (configure_athena env) = Value ()"
  by (simp add: configure_athena_def run_simps and_then_def try_except_def split: outcome.splits)

lemma create_s3_bucket_eq:
  "create_s3_bucket env b r =
     (case create_bucket env b r of
        Returns u \<Rightarrow> (Value (), [CreateBucket b r, Print (''Bucket '' @ b @ '' created successfully.'')])
      | Raises e \<Rightarrow>
          if is_ClientError e
          then (Value (), [CreateBucket b r, Print (''Error while creating bucket: '' @ str_exn e)])
          else (Raised e, [CreateBucket b r]))"
  by (simp add: create_s3_bucket_def run_simps split: outcome.splits)

lemma create_glue_database_eq:
  "create_glue_database env =
     (Value (),
      [CreateDatabase glue_database_name ''Glue database for NBA sports analytics.'',
       Print (case create_database env glue_database_name ''Glue database for NBA sports analytics.'' of
          Returns u \<Rightarrow> ''Glue database '' @ squote @ glue_database_name @ squote @ '' created successfully.''
        | Raises e \<Rightarrow> ''Error creating Glue database: '' @ str_exn e)])"
  by (simp add: create_glue_database_def run_simps split: outcome.splits)

lemma create_glue_table_eq:
  "create_glue_table env =
     (Value (),
      [CreateTable glue_database_name nba_players_table,
       Print (case create_table env glue_database_name nba_players_table of
          Returns u \<Rightarrow> ''Glue table '' @ squote @ ''nba_players'' @ squote @ '' created successfully.''
        | Raises e \<Rightarrow> ''Error creating Glue table: '' @ str_exn e)])"
  by (simp add: create_glue_table_def run_simps split: outcome.splits)

lemma configure_athena_eq:
  "configure_athena env =
     (Value (),
      [StartQueryExecution ''CREATE DATABASE IF NOT EXISTS nba_analytics'' glue_database_name athena_output_location,
       Print (case start_query_execution env ''CREATE DATABASE IF NOT EXISTS nba_analytics'' glue_database_name athena_output_location of
          Returns u \<Rightarrow> ''Athena output location configured successfully.''
        | Raises e \<Rightarrow> ''Error configuring Athena: '' @ str_exn e)])"
  by (simp add: configure_athena_def run_simps split: outcome.splits)

lemma fetch_nba_players_eq:
  "fetch_nba_players env key endpoint =
     (case requests_get env endpoint key of
        Raises e \<Rightarrow>
          if is_HTTPError e
          then (Value JNull, [PrintHeaders key, HttpGet endpoint key,
                  Print (''Error while fetching NBA players data: '' @ str_exn e)])
          else (Raised e, [PrintHeaders key, HttpGet endpoint key])
      | Returns resp \<Rightarrow>
          if 400 \<le> status_code resp \<and> status_code resp < 600
          then (Value JNull, [PrintHeaders key, HttpGet endpoint key,
                  Print (''Error while fetching NBA players data: '' @ error_text resp)])
          else (case json_body resp of
                  None \<Rightarrow> (Raised (OtherError ''JSONDecodeError''), [PrintHeaders key, HttpGet endpoint key])
                | Some j \<Rightarrow> (Value j, [PrintHeaders key, HttpGet endpoint key])))"
  by (simp add: fetch_nba_players_def raise_for_status_def response_json_def run_simps
      split: outcome.splits option.splits)

lemma wait_loop_events:
  "P (GetQueryExecution qid) \<Longrightarrow> P (Sleep 1) \<Longrightarrow> list_all P (snd (wait_loop fuel env qid i))"
proof (induction fuel arbitrary: i)
  case 0
  then show ?case by simp
next
  case (Suc fuel)
  then show ?case
    by (auto intro!: list_all_run)
qed

lemma query_athena_eq:
  "query_athena fuel env db tbl out =
     (case start_query_execution env (count_query db tbl) db out of
        Raises e \<Rightarrow>
          if is_ClientError e
          then (Value None, [StartQueryExecution (count_query db tbl) db out,
                  Print (''Error while querying Athena: '' @ str_exn e)])
          else (Raised e, [StartQueryExecution (count_query db tbl) db out])
      | Returns qid \<Rightarrow>
          (case fst (wait_loop fuel env qid 0) of
             Running \<Rightarrow>
               (Running, [StartQueryExecution (count_query db tbl) db out,
                  Print (''Query Execution ID: '' @ qid)] @ snd (wait_loop fuel env qid 0))
           | Raised e \<Rightarrow>
               if is_ClientError e
               then (Value None, [StartQueryExecution (count_query db tbl) db out,
                       Print (''Query Execution ID: '' @ qid)] @ snd (wait_loop fuel env qid 0)
                       @ [Print (''Error while querying Athena: '' @ str_exn e)])
               else (Raised e, [StartQueryExecution (count_query db tbl) db out,
                       Print (''Query Execution ID: '' @ qid)] @ snd (wait_loop fuel env qid 0))
           | Value st \<Rightarrow>
               if st = ''SUCCEEDED'' then
                 (case get_query_results env qid of
                    Returns rows \<Rightarrow>
                      (Value (Some rows), [StartQueryExecution (count_query db tbl) db out,
                         Print (''Query Execution ID: '' @ qid)] @ snd (wait_loop fuel env qid 0)
                         @ [GetQueryResults qid])
                  | Raises e \<Rightarrow>
                      if is_ClientError e
                      then (Value None, [StartQueryExecution (count_query db tbl) db out,
                         Print (''Query Execution ID: '' @ qid)] @ snd (wait_loop fuel env qid 0)
                         @ [GetQueryResults qid, Print (''Error while querying Athena: '' @ str_exn e)])
                      else (Raised e, [StartQueryExecution (count_query db tbl) db out,
                         Print (''Query Execution ID: '' @ qid)] @ snd (wait_loop fuel env qid 0)
                         @ [GetQueryResults qid]))
               else
                 (Value None, [StartQueryExecution (count_query db tbl) db out,
                    Print (''Query Execution ID: '' @ qid)] @ snd (wait_loop fuel env qid 0)
                    @ [Print (''Query failed with state: '' @ st)])))"
  by (simp add: query_athena_def and_then_def try_except_def ret_def say_def call_def
      split: outcome.splits result.splits)

lemma query_athena_events:
  assumes "\<And>q. P (GetQueryExecution q)" "P (Sleep 1)" "\<And>s. P (Print s)"
    "\<And>q. P (GetQueryResults q)" "\<And>q d out. P (StartQueryExecution q d out)"
  shows "list_all P (snd (query_athena fuel env db tbl out))"
  unfolding query_athena_def
  by (intro list_all_run wait_loop_events assms) (auto intro!: list_all_run assms)

lemma query_athena_starts:
  "hd (snd (query_athena fuel env db tbl out)) = StartQueryExecution (count_query db tbl) db out"
  by (simp add: query_athena_eq split: outcome.splits result.splits)

lemma query_athena_nonempty: "snd (query_athena fuel env db tbl out) \<noteq> []"
  by (simp add: query_athena_eq split: outcome.splits result.splits)

lemma main_eq:
  assumes "fst (create_s3_bucket env bucket_name (region env)) = Value ()"
    and "fst (fetch_nba_players env (api_key env) (nba_endpoint env)) = Value d"
  shows "main fuel env =
    (fst (and_then (query_athena fuel env glue_database_name glue_table_name athena_output_location)
       (\<lambda>athena_results.
         if truthy_rows athena_results then
           and_then (say ''Athena query results:'') (\<lambda>_. print_rows athena_results)
         else say ''Failed to query Athena.'')),
     Print ''Setting up data lake for NBA sports analytics...''
     # snd (create_s3_bucket env bucket_name (region env))
     @ Sleep 5
     # snd (create_glue_database env)
     @ snd (fetch_nba_players env (api_key env) (nba_endpoint env))
     @ snd (if truthy d then upload_data_to_s3 env d else ret ())
     @ snd (create_glue_table env)
     @ snd (configure_athena env)
     @ Print ''Data lake setup complete.''
     # snd (and_then (query_athena fuel env glue_database_name glue_table_name athena_output_location)
       (\<lambda>athena_results.
         if truthy_rows athena_results then
           and_then (say ''Athena query results:'') (\<lambda>_. print_rows athena_results)
         else say ''Failed to query Athena.'')))"
  using assms
  by (simp add: main_def and_then_def create_glue_database_returns upload_data_to_s3_returns
      create_glue_table_returns configure_athena_returns say_def sleep_def ret_def)

lemma main_reports_failure:
  assumes "fst (create_s3_bucket env bucket_name (region env)) = Value ()"
    and "fst (fetch_nba_players env (api_key env) (nba_endpoint env)) = Value d"
    and "fst (query_athena fuel env glue_database_name glue_table_name athena_output_location) = Value r"
    and "\<not> truthy_rows r"
  shows "fst (main fuel env) = Value () \<and> last (snd (main fuel env)) = Print ''Failed to query Athena.''"
  using assms(3,4) by (simp add: main_eq [OF assms(1,2)] and_then_def say_def)

section \<open>The events of the steps and of a whole run\<close>

lemma create_s3_bucket_events:
  "P (CreateBucket b r) \<Longrightarrow> (\<And>s. P (Print s)) \<Longrightarrow> list_all P (snd (create_s3_bucket env b r))"
  by (simp add: create_s3_bucket_eq split: outcome.splits)

lemma create_glue_database_events:
  "(\<And>n d. P (CreateDatabase n d)) \<Longrightarrow> (\<And>s. P (Print s)) \<Longrightarrow>
   list_all P (snd (create_glue_database env))"
  by (simp add: create_glue_database_eq)

lemma fetch_nba_players_events:
  "P (PrintHeaders key) \<Longrightarrow> P (HttpGet endpoint key) \<Longrightarrow> (\<And>s. P (Print s)) \<Longrightarrow>
   list_all P (snd (fetch_nba_players env key endpoint))"
  by (simp add: fetch_nba_players_eq split: outcome.splits option.splits)

lemma upload_data_to_s3_events:
  "(\<And>body. P (PutObject bucket_name file_key body)) \<Longrightarrow> (\<And>s. P (Print s)) \<Longrightarrow>
   list_all P (snd (upload_data_to_s3 env d))"
proof -
  assume p: "\<And>body. P (PutObject bucket_name file_key body)" "\<And>s. P (Print s)"
  have "list_all P (snd (py_iter d))"
    using py_iter_cases [of d] by auto
  then show ?thesis
    unfolding upload_data_to_s3_def convert_to_line_delimited_json_def
    by (intro list_all_run p) simp_all
qed

lemma create_glue_table_events:
  "P (CreateTable glue_database_name nba_players_table) \<Longrightarrow> (\<And>s. P (Print s)) \<Longrightarrow>
   list_all P (snd (create_glue_table env))"
  by (simp add: create_glue_table_eq)

lemma configure_athena_events:
  "(\<And>q d out. P (StartQueryExecution q d out)) \<Longrightarrow> (\<And>s. P (Print s)) \<Longrightarrow>
   list_all P (snd (configure_athena env))"
  by (simp add: configure_athena_eq)

lemma report_events:
  assumes "\<And>q. P (GetQueryExecution q)" "P (Sleep 1)" "\<And>s. P (Print s)"
    "\<And>q. P (GetQueryResults q)" "\<And>q d out. P (StartQueryExecution q d out)" "\<And>r. P (PrintRow r)"
  shows "list_all P (snd (and_then (query_athena fuel env db tbl out)
       (\<lambda>athena_results.
         if truthy_rows athena_results then
           and_then (say ''Athena query results:'') (\<lambda>_. print_rows athena_results)
         else say ''Failed to query Athena.'')))"
proof (intro list_all_and_then query_athena_events assms)
  fix a :: "json list option"
  have "list_all P (snd (print_rows a))"
    by (cases a) (simp_all add: throw_def list_all_iff assms)
  then show "list_all P (snd (if truthy_rows a
                  then and_then (say ''Athena query results:'') (\<lambda>_. print_rows a)
                  else say ''Failed to query Athena.''))"
    by (auto intro!: list_all_run assms)
qed

lemma query_athena_trace:
  "\<exists>t. snd (query_athena fuel env db tbl out) = StartQueryExecution (count_query db tbl) db out # t"
  by (simp add: query_athena_eq split: outcome.splits result.splits)

lemma main_after_falsy_fetch:
  assumes "fst (create_s3_bucket env bucket_name (region env)) = Value ()"
    and "fst (fetch_nba_players env (api_key env) (nba_endpoint env)) = Value d"
    and "\<not> truthy d"
  shows "filter is_PutObject (snd (main fuel env)) = []"
    and "subseq
      (snd (fetch_nba_players env (api_key env) (nba_endpoint env)) @
       [CreateTable glue_database_name nba_players_table,
        StartQueryExecution ''CREATE DATABASE IF NOT EXISTS nba_analytics''
          glue_database_name athena_output_location,
        StartQueryExecution (count_query glue_database_name glue_table_name)
          glue_database_name athena_output_location])
      (snd (main fuel env))"
proof -
  let ?P = "\<lambda>ev. \<not> is_PutObject ev"
  let ?Q = "and_then (query_athena fuel env glue_database_name glue_table_name athena_output_location)
       (\<lambda>athena_results.
         if truthy_rows athena_results then
           and_then (say ''Athena query results:'') (\<lambda>_. print_rows athena_results)
         else say ''Failed to query Athena.'')"
  have 1: "list_all ?P (snd (create_s3_bucket env bucket_name (region env)))"
    by (rule create_s3_bucket_events) simp_all
  have 2: "list_all ?P (snd (create_glue_database env))"
    by (rule create_glue_database_events) simp_all
  have 3: "list_all ?P (snd (fetch_nba_players env (api_key env) (nba_endpoint env)))"
    by (rule fetch_nba_players_events) simp_all
  have 4: "list_all ?P (snd (create_glue_table env))"
    by (rule create_glue_table_events) simp_all
  have 5: "list_all ?P (snd (configure_athena env))"
    by (rule configure_athena_events) simp_all
  have 6: "list_all ?P (snd ?Q)"
    by (rule report_events) simp_all
  have "list_all ?P (snd (main fuel env))"
    using 1 2 3 4 5 6 assms(3) by (simp add: main_eq [OF assms(1,2)] ret_def)
  then show "filter is_PutObject (snd (main fuel env)) = []"
    by (simp add: list_all_iff filter_empty_conv)
  obtain t where t: "snd (query_athena fuel env glue_database_name glue_table_name athena_output_location)
      = StartQueryExecution (count_query glue_database_name glue_table_name)
          glue_database_name athena_output_location # t"
    using query_athena_trace by blast
  have q: "subseq [StartQueryExecution (count_query glue_database_name glue_table_name)
          glue_database_name athena_output_location] (snd ?Q)"
    by (simp add: snd_and_then t)
  show "subseq
      (snd (fetch_nba_players env (api_key env) (nba_endpoint env)) @
       [CreateTable glue_database_name nba_players_table,
        StartQueryExecution ''CREATE DATABASE IF NOT EXISTS nba_analytics''
          glue_database_name athena_output_location,
        StartQueryExecution (count_query glue_database_name glue_table_name)
          glue_database_name athena_output_location])
      (snd (main fuel env))"
    unfolding main_eq [OF assms(1,2)] snd_conv
    apply (rule subseq_drop_many [of _ _ "[_]", simplified])
    apply (rule subseq_drop_many)
    apply (rule subseq_drop_many [of _ _ "[_]", simplified])
    apply (rule subseq_drop_many)
    apply (rule list_emb_append_mono)
     apply simp
    using assms(3) q
    apply (simp add: ret_def create_glue_table_eq configure_athena_eq)
    done
qed

lemma main_storage_consistent: "list_all storage_consistent (snd (main fuel env))"
proof -
  have u: "\<And>d. list_all storage_consistent (snd (upload_data_to_s3 env d))"
    by (rule upload_data_to_s3_events) simp_all
  have t: "storage_consistent (CreateTable glue_database_name nba_players_table)"
    by (simp add: nba_players_table_def s3_uri_def)
  show ?thesis
    unfolding main_def
    by (intro list_all_and_then list_all_basic create_s3_bucket_events create_glue_database_events
        fetch_nba_players_events create_glue_table_events configure_athena_events report_events t)
      (simp_all add: u ret_def)
qed

lemma wait_loop_raises:
  "get_query_execution env qid (i + k) = Raises e \<Longrightarrow>
   (\<forall>j<k. \<exists>s. get_query_execution env qid (i + j) = Returns s \<and> s \<notin> set terminal_states) \<Longrightarrow>
   k < fuel \<Longrightarrow>
   wait_loop fuel env qid i =
     (Raised e, concat (replicate k [GetQueryExecution qid, Sleep 1]) @ [GetQueryExecution qid])"
proof (induction k arbitrary: i fuel)
  case 0
  then obtain n where "fuel = Suc n" by (cases fuel) auto
  with 0 show ?case by (simp add: run_simps)
next
  case (Suc k)
  then obtain n where n: "fuel = Suc n" by (cases fuel) auto
  from Suc.prems(2) obtain s where s: "get_query_execution env qid i = Returns s" "s \<notin> set terminal_states"
    by (metis add.right_neutral zero_less_Suc)
  have "wait_loop n env qid (Suc i) =
     (Raised e, concat (replicate k [GetQueryExecution qid, Sleep 1]) @ [GetQueryExecution qid])"
  proof (rule Suc.IH)
    show "get_query_execution env qid (Suc i + k) = Raises e" using Suc.prems(1) by simp
    show "\<forall>j<k. \<exists>s. get_query_execution env qid (Suc i + j) = Returns s \<and> s \<notin> set terminal_states"
      using Suc.prems(2) by (metis Suc_less_eq add_Suc_shift)
    show "k < n" using Suc.prems(3) n by simp
  qed
  with s n show ?case by (simp add: run_simps)
qed

lemma report_returns:
  "fst (query_athena fuel env db tbl out) = Value r \<Longrightarrow>
   fst (and_then (query_athena fuel env db tbl out)
       (\<lambda>athena_results.
         if truthy_rows athena_results then
           and_then (say ''Athena query results:'') (\<lambda>_. print_rows athena_results)
         else say ''Failed to query Athena.'')) = Value ()"
  by (cases r) (simp_all add: and_then_def say_def)

lemma main_steps_in_order:
  assumes "fst (create_s3_bucket env bucket_name (region env)) = Value ()"
    and "fst (fetch_nba_players env (api_key env) (nba_endpoint env)) = Value d"
  shows "subseq
      [CreateBucket bucket_name (region env),
       CreateDatabase glue_database_name ''Glue database for NBA sports analytics.'',
       HttpGet (nba_endpoint env) (api_key env),
       CreateTable glue_database_name nba_players_table,
       StartQueryExecution ''CREATE DATABASE IF NOT EXISTS nba_analytics''
         glue_database_name athena_output_location,
       StartQueryExecution (count_query glue_database_name glue_table_name)
         glue_database_name athena_output_location]
      (snd (main fuel env))"
proof -
  let ?Q = "and_then (query_athena fuel env glue_database_name glue_table_name athena_output_location)
       (\<lambda>athena_results.
         if truthy_rows athena_results then
           and_then (say ''Athena query results:'') (\<lambda>_. print_rows athena_results)
         else say ''Failed to query Athena.'')"
  obtain t where t: "snd (query_athena fuel env glue_database_name glue_table_name athena_output_location)
      = StartQueryExecution (count_query glue_database_name glue_table_name)
          glue_database_name athena_output_location # t"
    using query_athena_trace by blast
  have q: "subseq [StartQueryExecution (count_query glue_database_name glue_table_name)
          glue_database_name athena_output_location] (snd ?Q)"
    by (simp add: snd_and_then t)
  have b: "subseq [CreateBucket bucket_name (region env)]
     (snd (create_s3_bucket env bucket_name (region env)))"
    by (simp add: create_s3_bucket_eq split: outcome.splits)
  have f: "subseq [HttpGet (nba_endpoint env) (api_key env)]
     (snd (fetch_nba_players env (api_key env) (nba_endpoint env)))"
    by (simp add: fetch_nba_players_eq split: outcome.splits option.splits)
  have r: "subseq
      [CreateTable glue_database_name nba_players_table,
       StartQueryExecution ''CREATE DATABASE IF NOT EXISTS nba_analytics''
         glue_database_name athena_output_location,
       StartQueryExecution (count_query glue_database_name glue_table_name)
         glue_database_name athena_output_location]
      (snd (create_glue_table env) @ snd (configure_athena env) @ Print ''Data lake setup complete.'' # snd ?Q)"
    using q by (simp add: create_glue_table_eq configure_athena_eq)
  have d: "subseq [CreateDatabase glue_database_name ''Glue database for NBA sports analytics.'']
     (Sleep 5 # snd (create_glue_database env))"
    by (simp add: create_glue_database_eq)
  have "subseq
      ([CreateBucket bucket_name (region env)] @
       [CreateDatabase glue_database_name ''Glue database for NBA sports analytics.''] @
       [HttpGet (nba_endpoint env) (api_key env)] @
       [CreateTable glue_database_name nba_players_table,
        StartQueryExecution ''CREATE DATABASE IF NOT EXISTS nba_analytics''
          glue_database_name athena_output_location,
        StartQueryExecution (count_query glue_database_name glue_table_name)
          glue_database_name athena_output_location])
      (snd (create_s3_bucket env bucket_name (region env)) @
       (Sleep 5 # snd (create_glue_database env)) @
       snd (fetch_nba_players env (api_key env) (nba_endpoint env)) @
       (snd (if truthy d then upload_data_to_s3 env d else ret ()) @
        snd (create_glue_table env) @ snd (configure_athena env) @
        Print ''Data lake setup complete.'' # snd ?Q))"
    by (intro list_emb_append_mono b d f subseq_drop_many r)
  then show ?thesis
    by (simp add: main_eq [OF assms])
qed

lemma main_keeps_polling:
  assumes "fst (create_s3_bucket env bucket_name (region env)) = Value ()"
    and "fst (fetch_nba_players env (api_key env) (nba_endpoint env)) = Value d"
    and "start_query_execution env (count_query glue_database_name glue_table_name)
           glue_database_name athena_output_location = Returns qid"
    and "\<forall>j. \<exists>s. get_query_execution env qid j = Returns s \<and> s \<notin> set terminal_states"
  shows "fst (main fuel env) = Running"
proof -
  have "wait_loop fuel env qid 0 = (Running, concat (replicate fuel [GetQueryExecution qid, Sleep 1]))"
    using assms(4) by (intro wait_loop_running) simp
  then have "fst (query_athena fuel env glue_database_name glue_table_name athena_output_location)
      = Running"
    using assms(3) by (simp add: query_athena_eq)
  then show ?thesis
    by (simp add: main_eq [OF assms(1,2)] fst_and_then)
qed

lemma upload_data_to_s3_eq:
  assumes "py_iter d = (Value recs, [])"
  shows "upload_data_to_s3 env d =
     (Value (),
      [Print ''Converting data to line-delimited JSON format...'',
       PutObject bucket_name file_key (str_join newline (map (json_dumps env) recs)),
       Print (case put_object env bucket_name file_key (str_join newline (map (json_dumps env) recs)) of
          Returns u \<Rightarrow> ''Uploaded data to S3: '' @ file_key
        | Raises e \<Rightarrow> ''Error uploading data to S3: '' @ str_exn e)])"
  using assms
  by (simp add: upload_data_to_s3_def convert_to_line_delimited_json_def run_simps
      split: outcome.splits)

lemma report_eq:
  "fst (query_athena fuel env db tbl out) = Value r \<Longrightarrow>
   and_then (query_athena fuel env db tbl out)
       (\<lambda>athena_results.
         if truthy_rows athena_results then
           and_then (say ''Athena query results:'') (\<lambda>_. print_rows athena_results)
         else say ''Failed to query Athena.'')
   = (Value (),
      snd (query_athena fuel env db tbl out) @
      (case r of
         None \<Rightarrow> [Print ''Failed to query Athena.'']
       | Some rows \<Rightarrow>
           if rows = [] then [Print ''Failed to query Athena.'']
           else Print ''Athena query results:'' # map PrintRow rows))"
  by (cases r) (simp_all add: and_then_def say_def)

lemma main_trace:
  assumes "fst (create_s3_bucket env bucket_name (region env)) = Value ()"
    and "fst (fetch_nba_players env (api_key env) (nba_endpoint env)) = Value d"
    and "fst (query_athena fuel env glue_database_name glue_table_name athena_output_location) = Value r"
  shows "main fuel env =
    (Value (),
     Print ''Setting up data lake for NBA sports analytics...''
     # snd (create_s3_bucket env bucket_name (region env))
     @ Sleep 5
     # snd (create_glue_database env)
     @ snd (fetch_nba_players env (api_key env) (nba_endpoint env))
     @ (if truthy d then snd (upload_data_to_s3 env d) else [])
     @ snd (create_glue_table env)
     @ snd (configure_athena env)
     @ Print ''Data lake setup complete.''
     # snd (query_athena fuel env glue_database_name glue_table_name athena_output_location)
     @ (case r of
          None \<Rightarrow> [Print ''Failed to query Athena.'']
        | Some rows \<Rightarrow>
            if rows = [] then [Print ''Failed to query Athena.'']
            else Print ''Athena query results:'' # map PrintRow rows))"
  by (simp add: main_eq [OF assms(1,2)] report_eq [OF assms(3)] ret_def)

lemma main_prefix_after_falsy_fetch:
  assumes "fst (create_s3_bucket env bucket_name (region env)) = Value ()"
    and "fst (fetch_nba_players env (api_key env) (nba_endpoint env)) = Value d"
    and "\<not> truthy d"
  shows "prefix
     (Print ''Setting up data lake for NBA sports analytics...''
      # snd (create_s3_bucket env bucket_name (region env))
      @ Sleep 5
      # snd (create_glue_database env)
      @ snd (fetch_nba_players env (api_key env) (nba_endpoint env))
      @ snd (create_glue_table env)
      @ snd (configure_athena env)
      @ [Print ''Data lake setup complete.'',
         StartQueryExecution (count_query glue_database_name glue_table_name)
           glue_database_name athena_output_location])
     (snd (main fuel env))"
proof -
  obtain t where t: "snd (query_athena fuel env glue_database_name glue_table_name athena_output_location)
      = StartQueryExecution (count_query glue_database_name glue_table_name)
          glue_database_name athena_output_location # t"
    using query_athena_trace by blast
  show ?thesis
    using assms(3) by (simp add: main_eq [OF assms(1,2)] snd_and_then t ret_def)
qed

lemma main_table_follows_falsy_fetch:
  assumes "fst (create_s3_bucket env bucket_name (region env)) = Value ()"
    and "fst (fetch_nba_players env (api_key env) (nba_endpoint env)) = Value d"
    and "\<not> truthy d"
  shows "sublist
     (snd (fetch_nba_players env (api_key env) (nba_endpoint env))
      @ [CreateTable glue_database_name nba_players_table])
     (snd (main fuel env))"
proof -
  let ?f = "snd (fetch_nba_players env (api_key env) (nba_endpoint env))"
  let ?ps = "Print ''Setting up data lake for NBA sports analytics...''
        # snd (create_s3_bucket env bucket_name (region env)) @ Sleep 5 # snd (create_glue_database env)"
  obtain ss where ss: "snd (create_glue_table env) = CreateTable glue_database_name nba_players_table # ss"
    by (simp add: create_glue_table_eq)
  let ?ss = "ss @ snd (configure_athena env) @ Print ''Data lake setup complete.''
     # snd (and_then (query_athena fuel env glue_database_name glue_table_name athena_output_location)
       (\<lambda>athena_results.
         if truthy_rows athena_results then
           and_then (say ''Athena query results:'') (\<lambda>_. print_rows athena_results)
         else say ''Failed to query Athena.''))"
  have "snd (main fuel env) = ?ps @ (?f @ [CreateTable glue_database_name nba_players_table]) @ ?ss"
    using assms(3) by (simp add: main_eq [OF assms(1,2)] ret_def ss)
  then show ?thesis
    by (simp only: sublist_appendI)
qed

lemma main_steps_in_order_with_upload:
  assumes "fst (create_s3_bucket env bucket_name (region env)) = Value ()"
    and "fst (fetch_nba_players env (api_key env) (nba_endpoint env)) = Value d"
    and "truthy d" and "py_iter d = (Value recs, [])"
  shows "subseq
      [CreateBucket bucket_name (region env),
       CreateDatabase glue_database_name ''Glue database for NBA sports analytics.'',
       HttpGet (nba_endpoint env) (api_key env),
       PutObject bucket_name file_key (str_join newline (map (json_dumps env) recs)),
       CreateTable glue_database_name nba_players_table,
       StartQueryExecution ''CREATE DATABASE IF NOT EXISTS nba_analytics''
         glue_database_name athena_output_location,
       StartQueryExecution (count_query glue_database_name glue_table_name)
         glue_database_name athena_output_location]
      (snd (main fuel env))"
proof -
  let ?Q = "and_then (query_athena fuel env glue_database_name glue_table_name athena_output_location)
       (\<lambda>athena_results.
         if truthy_rows athena_results then
           and_then (say ''Athena query results:'') (\<lambda>_. print_rows athena_results)
         else say ''Failed to query Athena.'')"
  obtain t where t: "snd (query_athena fuel env glue_database_name glue_table_name athena_output_location)
      = StartQueryExecution (count_query glue_database_name glue_table_name)
          glue_database_name athena_output_location # t"
    using query_athena_trace by blast
  have q: "subseq [StartQueryExecution (count_query glue_database_name glue_table_name)
          glue_database_name athena_output_location] (snd ?Q)"
    by (simp add: snd_and_then t)
  have b: "subseq [CreateBucket bucket_name (region env)]
     (snd (create_s3_bucket env bucket_name (region env)))"
    by (simp add: create_s3_bucket_eq split: outcome.splits)
  have f: "subseq [HttpGet (nba_endpoint env) (api_key env)]
     (snd (fetch_nba_players env (api_key env) (nba_endpoint env)))"
    by (simp add: fetch_nba_players_eq split: outcome.splits option.splits)
  have u: "subseq [PutObject bucket_name file_key (str_join newline (map (json_dumps env) recs))]
     (snd (if truthy d then upload_data_to_s3 env d else ret ()))"
    using assms(3) by (simp add: upload_data_to_s3_eq [OF assms(4)])
  have r: "subseq
      [CreateTable glue_database_name nba_players_table,
       StartQueryExecution ''CREATE DATABASE IF NOT EXISTS nba_analytics''
         glue_database_name athena_output_location,
       StartQueryExecution (count_query glue_database_name glue_table_name)
         glue_database_name athena_output_location]
      (snd (create_glue_table env) @ snd (configure_athena env) @ Print ''Data lake setup complete.'' # snd ?Q)"
    using q by (simp add: create_glue_table_eq configure_athena_eq)
  have d: "subseq [CreateDatabase glue_database_name ''Glue database for NBA sports analytics.'']
     (Sleep 5 # snd (create_glue_database env))"
    by (simp add: create_glue_database_eq)
  have "subseq
      ([CreateBucket bucket_name (region env)] @
       [CreateDatabase glue_database_name ''Glue database for NBA sports analytics.''] @
       [HttpGet (nba_endpoint env) (api_key env)] @
       [PutObject bucket_name file_key (str_join newline (map (json_dumps env) recs))] @
       [CreateTable glue_database_name nba_players_table,
        StartQueryExecution ''CREATE DATABASE IF NOT EXISTS nba_analytics''
          glue_database_name athena_output_location,
        StartQueryExecution (count_query glue_database_name glue_table_name)
          glue_database_name athena_output_location])
      (snd (create_s3_bucket env bucket_name (region env)) @
       (Sleep 5 # snd (create_glue_database env)) @
       snd (fetch_nba_players env (api_key env) (nba_endpoint env)) @
       snd (if truthy d then upload_data_to_s3 env d else ret ()) @
       (snd (create_glue_table env) @ snd (configure_athena env) @
        Print ''Data lake setup complete.'' # snd ?Q))"
    by (intro list_emb_append_mono b d f u r)
  then show ?thesis
    by (simp add: main_eq [OF assms(1,2)])
qed

section \<open>Lines of a payload\<close>

lemma lines_of_line: "CHR 0x0A \<notin> set a \<Longrightarrow> lines_of a = [a]"
  by (induction a) auto

lemma lines_of_append: "CHR 0x0A \<notin> set a \<Longrightarrow> lines_of (a @ CHR 0x0A # b) = a # lines_of b"
  by (induction a) auto

lemma lines_of_str_join:
  "xs \<noteq> [] \<Longrightarrow> \<forall>x\<in>set xs. CHR 0x0A \<notin> set x \<Longrightarrow> lines_of (str_join newline xs) = xs"
proof (induction newline xs rule: str_join.induct)
  case 1
  then show ?case by simp
next
  case (2 x)
  then show ?case by (simp add: lines_of_line)
next
  case (3 x y ys)
  then show ?case by (simp add: lines_of_append newline_def)
qed

lemma str_join_nonempty: "xs \<noteq> [] \<Longrightarrow> last xs \<noteq> [] \<Longrightarrow> str_join sep xs \<noteq> []"
  by (induction sep xs rule: str_join.induct) simp_all

lemma last_str_join:
  "xs \<noteq> [] \<Longrightarrow> last xs \<noteq> [] \<Longrightarrow> last (str_join sep xs) = last (last xs)"
proof (induction sep xs rule: str_join.induct)
  case (1 sep)
  then show ?case by simp
next
  case (2 sep x)
  then show ?case by simp
next
  case (3 sep x y ys)
  then have "str_join sep (y # ys) \<noteq> []"
    by (intro str_join_nonempty) simp_all
  with 3 show ?case by (simp add: last_append)
qed

section \<open>Evaluation on the stubs\<close>

lemmas model_defs = main_def program_def query_athena_def wait_loop.simps configure_athena_def
  create_glue_table_def upload_data_to_s3_def convert_to_line_delimited_json_def
  fetch_nba_players_def raise_for_status_def response_json_def create_glue_database_def
  create_s3_bucket_def and_then_def try_except_def ret_def throw_def say_def sleep_def call_def
  region_def api_key_def nba_endpoint_def terminal_states_def

lemmas stub_defs = stub_env_def stub_polls_def stub_response_def stub_dumps_def player_def
  stub_env_failed_def stub_env_empty_rows_def stub_env_exists_def stub_env_unconfigured_def
  stub_env_offline_def stub_env_not_modified_def stub_env_not_found_def stub_env_no_data_def
  stub_env_no_credentials_def stub_env_all_fail_def stub_env_running_def
  stub_env_empty_region_def stub_env_upload_fails_def

section \<open>The claims\<close>

text \<open>
  C1. In the polling loop of \<^verbatim>\<open>query_athena\<close> the state is checked once a second; the
  loop goes on after every poll that returns a non-terminal state (\<^verbatim>\<open>SUBMITTED\<close> and
  \<^verbatim>\<open>RUNNING\<close> are such) and ends at the first poll that returns \<^verbatim>\<open>SUCCEEDED\<close>,
  \<^verbatim>\<open>FAILED\<close> or \<^verbatim>\<open>CANCELLED\<close>. When the \<open>k\<close>-th poll is the first terminal one, the
  loop returns that state after \<open>k + 1\<close> polls and \<open>k\<close> sleeps, for every fuel above
  \<open>k\<close>, and is still running with any fuel up to \<open>k\<close>.
\<close>

theorem wait_loop_polls_until_terminal:
  assumes "get_query_execution env qid k = Returns st"
    and "st \<in> set terminal_states"
    and "\<forall>j<k. \<exists>s. get_query_execution env qid j = Returns s \<and> s \<notin> set terminal_states"
  shows "''SUBMITTED'' \<notin> set terminal_states \<and> ''RUNNING'' \<notin> set terminal_states \<and>
    (k < fuel \<longrightarrow> wait_loop fuel env qid 0 =
       (Value st, concat (replicate k [GetQueryExecution qid, Sleep 1]) @ [GetQueryExecution qid])) \<and>
    (fuel \<le> k \<longrightarrow> wait_loop fuel env qid 0 =
       (Running, concat (replicate fuel [GetQueryExecution qid, Sleep 1])))"
proof (intro conjI impI)
  show "''SUBMITTED'' \<notin> set terminal_states" "''RUNNING'' \<notin> set terminal_states"
    by (simp_all add: terminal_states_def)
next
  assume "k < fuel"
  with assms show "wait_loop fuel env qid 0 =
       (Value st, concat (replicate k [GetQueryExecution qid, Sleep 1]) @ [GetQueryExecution qid])"
    by (intro wait_loop_stops) simp_all
next
  assume "fuel \<le> k"
  with assms(3) show "wait_loop fuel env qid 0 =
       (Running, concat (replicate fuel [GetQueryExecution qid, Sleep 1]))"
    by (intro wait_loop_running) simp
qed

theorem wait_loop_polls_until_terminal_witness:
  "wait_loop 5 stub_env ''q-1'' 0 =
     (Value ''SUCCEEDED'',
      [GetQueryExecution ''q-1'', Sleep 1, GetQueryExecution ''q-1'', Sleep 1, GetQueryExecution ''q-1''])
   \<and> wait_loop 2 stub_env ''q-1'' 0 =
     (Running, [GetQueryExecution ''q-1'', Sleep 1, GetQueryExecution ''q-1'', Sleep 1])"
proof -
  have a: "get_query_execution stub_env ''q-1'' 2 = Returns ''SUCCEEDED''"
    by (simp add: stub_env_def stub_polls_def)
  have b: "''SUCCEEDED'' \<in> set terminal_states"
    by (simp add: terminal_states_def)
  have c: "\<forall>j<2. \<exists>s. get_query_execution stub_env ''q-1'' j = Returns s \<and> s \<notin> set terminal_states"
    by (simp add: stub_env_def stub_polls_def terminal_states_def less_Suc_eq numeral_2_eq_2)
  show ?thesis
    using wait_loop_polls_until_terminal [OF a b c, of 5]
      wait_loop_polls_until_terminal [OF a b c, of 2]
    by (simp add: numeral_2_eq_2)
qed

text \<open>
  C2. In every run of \<^verbatim>\<open>query_athena\<close> whose polling loop ends in a terminal state,
  \<^verbatim>\<open>get_query_results\<close> is called exactly once when that state is \<^verbatim>\<open>SUCCEEDED\<close>, right
  after the last poll, and the rows it returns are the result; when the state is
  \<^verbatim>\<open>FAILED\<close> or \<^verbatim>\<open>CANCELLED\<close> it is never called, the state is printed and the result is
  \<^verbatim>\<open>None\<close>. The witness is the poll stub that answers \<^verbatim>\<open>RUNNING\<close> twice, then
  \<^verbatim>\<open>SUCCEEDED\<close>.
\<close>

theorem query_athena_fetches_results_iff_succeeded:
  assumes "start_query_execution env (count_query db tbl) db out = Returns qid"
    and "get_query_execution env qid k = Returns st"
    and "st \<in> set terminal_states"
    and "\<forall>j<k. \<exists>s. get_query_execution env qid j = Returns s \<and> s \<notin> set terminal_states"
    and "k < fuel"
  shows "length (filter is_GetQueryResults (snd (query_athena fuel env db tbl out)))
           = (if st = ''SUCCEEDED'' then 1 else 0)
    \<and> (st = ''SUCCEEDED'' \<longrightarrow>
          prefix ([StartQueryExecution (count_query db tbl) db out,
                   Print (''Query Execution ID: '' @ qid)] @ poll_trace qid k @ [GetQueryResults qid])
            (snd (query_athena fuel env db tbl out))
          \<and> (\<forall>rows. get_query_results env qid = Returns rows \<longrightarrow>
                query_athena fuel env db tbl out =
                  (Value (Some rows),
                   [StartQueryExecution (count_query db tbl) db out,
                    Print (''Query Execution ID: '' @ qid)] @ poll_trace qid k @ [GetQueryResults qid])))
    \<and> (st \<noteq> ''SUCCEEDED'' \<longrightarrow>
          query_athena fuel env db tbl out =
            (Value None,
             [StartQueryExecution (count_query db tbl) db out,
              Print (''Query Execution ID: '' @ qid)] @ poll_trace qid k
             @ [Print (''Query failed with state: '' @ st)]))"
proof -
  have w: "wait_loop fuel env qid 0 = (Value st, poll_trace qid k)"
    unfolding poll_trace_def using assms(2-5) by (intro wait_loop_stops) simp_all
  have nq: "filter is_GetQueryResults (poll_trace qid k) = []"
    by (induction k) (simp_all add: poll_trace_def)
  show ?thesis
    using assms(1) w nq
    by (cases "get_query_results env qid") (auto simp add: query_athena_eq)
qed

theorem query_athena_fetches_results_iff_succeeded_witness:
  "query_athena 5 stub_env glue_database_name glue_table_name athena_output_location =
     (Value (Some [JObj [(''Data'', JArr [JStr ''2''])]]),
      [StartQueryExecution (count_query glue_database_name glue_table_name)
         glue_database_name athena_output_location,
       Print ''Query Execution ID: q-1'',
       GetQueryExecution ''q-1'', Sleep 1, GetQueryExecution ''q-1'', Sleep 1,
       GetQueryExecution ''q-1'', GetQueryResults ''q-1''])
   \<and> length (filter is_GetQueryResults
        (snd (query_athena 5 stub_env glue_database_name glue_table_name athena_output_location))) = 1
   \<and> query_athena 5 stub_env_failed glue_database_name glue_table_name athena_output_location =
     (Value None,
      [StartQueryExecution (count_query glue_database_name glue_table_name)
         glue_database_name athena_output_location,
       Print ''Query Execution ID: q-1'',
       GetQueryExecution ''q-1'', Print ''Query failed with state: FAILED''])
   \<and> length (filter is_GetQueryResults
        (snd (query_athena 5 stub_env_failed glue_database_name glue_table_name athena_output_location))) = 0"
proof -
  let ?q = "count_query glue_database_name glue_table_name"
  have s: "start_query_execution stub_env ?q glue_database_name athena_output_location = Returns ''q-1''"
    by (simp add: stub_env_def)
  have a: "get_query_execution stub_env ''q-1'' 2 = Returns ''SUCCEEDED''"
    by (simp add: stub_env_def stub_polls_def)
  have b: "''SUCCEEDED'' \<in> set terminal_states"
    by (simp add: terminal_states_def)
  have c: "\<forall>j<2. \<exists>s. get_query_execution stub_env ''q-1'' j = Returns s \<and> s \<notin> set terminal_states"
    by (simp add: stub_env_def stub_polls_def terminal_states_def less_Suc_eq numeral_2_eq_2)
  have d: "(2::nat) < 5" by simp
  have r: "get_query_results stub_env ''q-1'' = Returns [JObj [(''Data'', JArr [JStr ''2''])]]"
    by (simp add: stub_env_def)
  have s': "start_query_execution stub_env_failed ?q glue_database_name athena_output_location = Returns ''q-1''"
    by (simp add: stub_env_failed_def stub_env_def)
  have a': "get_query_execution stub_env_failed ''q-1'' 0 = Returns ''FAILED''"
    by (simp add: stub_env_failed_def stub_polls_def)
  have b': "''FAILED'' \<in> set terminal_states"
    by (simp add: terminal_states_def)
  have c': "\<forall>j<0. \<exists>s. get_query_execution stub_env_failed ''q-1'' j = Returns s \<and> s \<notin> set terminal_states"
    by simp
  have d': "(0::nat) < 5" by simp
  show ?thesis
    using query_athena_fetches_results_iff_succeeded [OF s a b c d]
      query_athena_fetches_results_iff_succeeded [OF s' a' b' c' d'] r
    by (simp add: poll_trace_def numeral_2_eq_2)
qed

text \<open>
  C3 (as amended). In every run in which each step succeeds or fails with an exception
  that its own handler catches (a \<^verbatim>\<open>ClientError\<close> for the bucket and for the query, an
  \<^verbatim>\<open>HTTPError\<close> or an error status for the fetch, any exception for the database, the
  upload, the table and the Athena configuration), and in which the polls of the query
  come to an end, \<^verbatim>\<open>main\<close> returns normally and its trace is that of the steps in their
  fixed order: bucket, sleep, database, fetch, the upload exactly when the fetched data is
  non-empty, table, Athena configuration, query, report. The calls of the steps occur in
  this order, the \<^verbatim>\<open>put_object\<close> of the upload between the request and the creation of
  the table; when the query ends in \<^verbatim>\<open>FAILED\<close> the last line is
  \<^verbatim>\<open>Failed to query Athena.\<close>
\<close>

theorem main_completes_when_failures_are_caught:
  assumes bucket: "\<forall>e. create_bucket env bucket_name (region env) = Raises e \<longrightarrow> is_ClientError e"
    and request: "\<forall>e. requests_get env (nba_endpoint env) (api_key env) = Raises e
                   \<longrightarrow> is_HTTPError e"
    and body: "\<forall>resp. requests_get env (nba_endpoint env) (api_key env) = Returns resp
                 \<longrightarrow> (400 \<le> status_code resp \<and> status_code resp < 600) \<or> json_body resp \<noteq> None"
    and start: "\<forall>e. start_query_execution env (count_query glue_database_name glue_table_name)
                   glue_database_name athena_output_location = Raises e \<longrightarrow> is_ClientError e"
    and polls: "\<forall>qid. start_query_execution env (count_query glue_database_name glue_table_name)
                   glue_database_name athena_output_location = Returns qid \<longrightarrow>
                 (\<forall>j<k. \<exists>s. get_query_execution env qid j = Returns s \<and> s \<notin> set terminal_states)
                 \<and> ((\<exists>st. get_query_execution env qid k = Returns st \<and> st \<in> set terminal_states)
                    \<or> (\<exists>m. get_query_execution env qid k = Raises (ClientError m)))"
    and results: "\<forall>qid e. get_query_results env qid = Raises e \<longrightarrow> is_ClientError e"
    and fuel: "k < fuel"
  shows "fst (main fuel env) = Value ()
    \<and> (\<exists>d r.
          fst (fetch_nba_players env (api_key env) (nba_endpoint env)) = Value d
        \<and> fst (query_athena fuel env glue_database_name glue_table_name athena_output_location)
            = Value r
        \<and> snd (main fuel env) =
            Print ''Setting up data lake for NBA sports analytics...''
            # snd (create_s3_bucket env bucket_name (region env))
            @ Sleep 5
            # snd (create_glue_database env)
            @ snd (fetch_nba_players env (api_key env) (nba_endpoint env))
            @ (if truthy d then snd (upload_data_to_s3 env d) else [])
            @ snd (create_glue_table env)
            @ snd (configure_athena env)
            @ Print ''Data lake setup complete.''
            # snd (query_athena fuel env glue_database_name glue_table_name athena_output_location)
            @ (case r of
                 None \<Rightarrow> [Print ''Failed to query Athena.'']
               | Some rows \<Rightarrow>
                   if rows = [] then [Print ''Failed to query Athena.'']
                   else Print ''Athena query results:'' # map PrintRow rows)
        \<and> (\<forall>recs. truthy d \<and> py_iter d = (Value recs, []) \<longrightarrow>
              subseq
                [CreateBucket bucket_name (region env),
                 CreateDatabase glue_database_name ''Glue database for NBA sports analytics.'',
                 HttpGet (nba_endpoint env) (api_key env),
                 PutObject bucket_name file_key (str_join newline (map (json_dumps env) recs)),
                 CreateTable glue_database_name nba_players_table,
                 StartQueryExecution ''CREATE DATABASE IF NOT EXISTS nba_analytics''
                   glue_database_name athena_output_location,
                 StartQueryExecution (count_query glue_database_name glue_table_name)
                   glue_database_name athena_output_location]
                (snd (main fuel env))))
    \<and> subseq
        [CreateBucket bucket_name (region env),
         CreateDatabase glue_database_name ''Glue database for NBA sports analytics.'',
         HttpGet (nba_endpoint env) (api_key env),
         CreateTable glue_database_name nba_players_table,
         StartQueryExecution ''CREATE DATABASE IF NOT EXISTS nba_analytics''
           glue_database_name athena_output_location,
         StartQueryExecution (count_query glue_database_name glue_table_name)
           glue_database_name athena_output_location]
        (snd (main fuel env))
    \<and> (\<forall>qid. start_query_execution env (count_query glue_database_name glue_table_name)
                glue_database_name athena_output_location = Returns qid
              \<and> get_query_execution env qid k = Returns ''FAILED''
              \<longrightarrow> last (snd (main fuel env)) = Print ''Failed to query Athena.'')"
proof -
  let ?qa = "query_athena fuel env glue_database_name glue_table_name athena_output_location"
  let ?start = "start_query_execution env (count_query glue_database_name glue_table_name)
                   glue_database_name athena_output_location"
  have b: "fst (create_s3_bucket env bucket_name (region env)) = Value ()"
    using bucket by (simp add: create_s3_bucket_eq split: outcome.splits)
  have "\<exists>d. fst (fetch_nba_players env (api_key env) (nba_endpoint env)) = Value d"
    using request body by (auto simp add: fetch_nba_players_eq split: outcome.splits option.splits)
  then obtain d where f: "fst (fetch_nba_players env (api_key env) (nba_endpoint env)) = Value d" ..
  have q: "\<exists>r. fst ?qa = Value r"
  proof (cases ?start)
    case (Raises e)
    with start show ?thesis by (simp add: query_athena_eq)
  next
    case (Returns qid)
    with polls have n: "\<forall>j<k. \<exists>s. get_query_execution env qid (0 + j) = Returns s \<and> s \<notin> set terminal_states"
      and s: "(\<exists>st. get_query_execution env qid k = Returns st \<and> st \<in> set terminal_states)
                    \<or> (\<exists>m. get_query_execution env qid k = Raises (ClientError m))"
      by simp_all
    from s show ?thesis
    proof (elim disjE exE conjE)
      fix st
      assume "get_query_execution env qid k = Returns st" "st \<in> set terminal_states"
      then have "wait_loop fuel env qid 0 = (Value st, poll_trace qid k)"
        unfolding poll_trace_def using n fuel by (intro wait_loop_stops) simp_all
      then show ?thesis
        using Returns results by (simp add: query_athena_eq split: outcome.splits)
    next
      fix m
      assume "get_query_execution env qid k = Raises (ClientError m)"
      then have "wait_loop fuel env qid 0 = (Raised (ClientError m), poll_trace qid k)"
        unfolding poll_trace_def using n fuel by (intro wait_loop_raises) simp_all
      then show ?thesis
        using Returns by (simp add: query_athena_eq)
    qed
  qed
  then obtain r where r: "fst ?qa = Value r" ..
  note t = main_trace [OF b f r]
  have 1: "fst (main fuel env) = Value ()"
    by (simp add: t)
  have 2: "subseq
        [CreateBucket bucket_name (region env),
         CreateDatabase glue_database_name ''Glue database for NBA sports analytics.'',
         HttpGet (nba_endpoint env) (api_key env),
         CreateTable glue_database_name nba_players_table,
         StartQueryExecution ''CREATE DATABASE IF NOT EXISTS nba_analytics''
           glue_database_name athena_output_location,
         StartQueryExecution (count_query glue_database_name glue_table_name)
           glue_database_name athena_output_location]
        (snd (main fuel env))"
    by (rule main_steps_in_order [OF b f])
  have 3: "last (snd (main fuel env)) = Print ''Failed to query Athena.''"
    if "?start = Returns qid" "get_query_execution env qid k = Returns ''FAILED''" for qid
  proof -
    from polls that(1)
    have n: "\<forall>j<k. \<exists>s. get_query_execution env qid (0 + j) = Returns s \<and> s \<notin> set terminal_states"
      by simp
    have "wait_loop fuel env qid 0 = (Value ''FAILED'', poll_trace qid k)"
      unfolding poll_trace_def using n fuel that(2)
      by (intro wait_loop_stops) (simp_all add: terminal_states_def)
    then have "fst ?qa = Value None"
      using that(1) by (simp add: query_athena_eq)
    then show ?thesis
      using main_reports_failure [OF b f, of fuel None] by simp
  qed
  have 4: "subseq
                [CreateBucket bucket_name (region env),
                 CreateDatabase glue_database_name ''Glue database for NBA sports analytics.'',
                 HttpGet (nba_endpoint env) (api_key env),
                 PutObject bucket_name file_key (str_join newline (map (json_dumps env) recs)),
                 CreateTable glue_database_name nba_players_table,
                 StartQueryExecution ''CREATE DATABASE IF NOT EXISTS nba_analytics''
                   glue_database_name athena_output_location,
                 StartQueryExecution (count_query glue_database_name glue_table_name)
                   glue_database_name athena_output_location]
                (snd (main fuel env))"
    if "truthy d" "py_iter d = (Value recs, [])" for recs
    by (rule main_steps_in_order_with_upload [OF b f that])
  have 5: "snd (main fuel env) =
            Print ''Setting up data lake for NBA sports analytics...''
            # snd (create_s3_bucket env bucket_name (region env))
            @ Sleep 5
            # snd (create_glue_database env)
            @ snd (fetch_nba_players env (api_key env) (nba_endpoint env))
            @ (if truthy d then snd (upload_data_to_s3 env d) else [])
            @ snd (create_glue_table env)
            @ snd (configure_athena env)
            @ Print ''Data lake setup complete.''
            # snd ?qa
            @ (case r of
                 None \<Rightarrow> [Print ''Failed to query Athena.'']
               | Some rows \<Rightarrow>
                   if rows = [] then [Print ''Failed to query Athena.'']
                   else Print ''Athena query results:'' # map PrintRow rows)"
    by (simp add: t)
  from f r 4 5 have e: "\<exists>d r.
          fst (fetch_nba_players env (api_key env) (nba_endpoint env)) = Value d
        \<and> fst ?qa = Value r
        \<and> snd (main fuel env) =
            Print ''Setting up data lake for NBA sports analytics...''
            # snd (create_s3_bucket env bucket_name (region env))
            @ Sleep 5
            # snd (create_glue_database env)
            @ snd (fetch_nba_players env (api_key env) (nba_endpoint env))
            @ (if truthy d then snd (upload_data_to_s3 env d) else [])
            @ snd (create_glue_table env)
            @ snd (configure_athena env)
            @ Print ''Data lake setup complete.''
            # snd ?qa
            @ (case r of
                 None \<Rightarrow> [Print ''Failed to query Athena.'']
               | Some rows \<Rightarrow>
                   if rows = [] then [Print ''Failed to query Athena.'']
                   else Print ''Athena query results:'' # map PrintRow rows)
        \<and> (\<forall>recs. truthy d \<and> py_iter d = (Value recs, []) \<longrightarrow>
              subseq
                [CreateBucket bucket_name (region env),
                 CreateDatabase glue_database_name ''Glue database for NBA sports analytics.'',
                 HttpGet (nba_endpoint env) (api_key env),
                 PutObject bucket_name file_key (str_join newline (map (json_dumps env) recs)),
                 CreateTable glue_database_name nba_players_table,
                 StartQueryExecution ''CREATE DATABASE IF NOT EXISTS nba_analytics''
                   glue_database_name athena_output_location,
                 StartQueryExecution (count_query glue_database_name glue_table_name)
                   glue_database_name athena_output_location]
                (snd (main fuel env)))"
    by blast
  from 1 e 2 3 show ?thesis by blast
qed

theorem main_completes_when_failures_are_caught_witness:
  "fst (main 5 stub_env_all_fail) = Value ()
   \<and> last (snd (main 5 stub_env_all_fail)) = Print ''Failed to query Athena.''
   \<and> subseq
        [CreateBucket bucket_name ''ap-southeast-2'',
         CreateDatabase glue_database_name ''Glue database for NBA sports analytics.'',
         HttpGet (Some ''https://api.example/players'') (Some ''key''),
         CreateTable glue_database_name nba_players_table,
         StartQueryExecution ''CREATE DATABASE IF NOT EXISTS nba_analytics''
           glue_database_name athena_output_location,
         StartQueryExecution (count_query glue_database_name glue_table_name)
           glue_database_name athena_output_location]
        (snd (main 5 stub_env_all_fail))
   \<and> fst (main 5 stub_env_upload_fails) = Value ()
   \<and> subseq
        [CreateBucket bucket_name ''ap-southeast-2'',
         CreateDatabase glue_database_name ''Glue database for NBA sports analytics.'',
         HttpGet (Some ''https://api.example/players'') (Some ''key''),
         PutObject bucket_name file_key (str_join newline (map stub_dumps [player 1, player 2])),
         CreateTable glue_database_name nba_players_table,
         StartQueryExecution ''CREATE DATABASE IF NOT EXISTS nba_analytics''
           glue_database_name athena_output_location,
         StartQueryExecution (count_query glue_database_name glue_table_name)
           glue_database_name athena_output_location]
        (snd (main 5 stub_env_upload_fails))"
proof -
  let ?e = stub_env_all_fail
  let ?start = "start_query_execution ?e (count_query glue_database_name glue_table_name)
                   glue_database_name athena_output_location"
  have s: "?start = Returns ''q-1''"
    by (simp add: stub_env_all_fail_def count_query_def)
  have p: "get_query_execution ?e ''q-1'' 1 = Returns ''FAILED''"
    by (simp add: stub_env_all_fail_def stub_polls_def)
  have bucket: "\<forall>e. create_bucket ?e bucket_name (region ?e) = Raises e \<longrightarrow> is_ClientError e"
    by (simp add: stub_env_all_fail_def)
  have request: "\<forall>e. requests_get ?e (nba_endpoint ?e) (api_key ?e) = Raises e \<longrightarrow> is_HTTPError e"
    by (simp add: stub_env_all_fail_def)
  have body: "\<forall>resp. requests_get ?e (nba_endpoint ?e) (api_key ?e) = Returns resp
                 \<longrightarrow> (400 \<le> status_code resp \<and> status_code resp < 600) \<or> json_body resp \<noteq> None"
    by (auto simp add: stub_env_all_fail_def)
  have start: "\<forall>e. ?start = Raises e \<longrightarrow> is_ClientError e"
    by (simp add: s)
  have polls: "\<forall>qid. ?start = Returns qid \<longrightarrow>
                 (\<forall>j<1. \<exists>s. get_query_execution ?e qid j = Returns s \<and> s \<notin> set terminal_states)
                 \<and> ((\<exists>st. get_query_execution ?e qid 1 = Returns st \<and> st \<in> set terminal_states)
                    \<or> (\<exists>m. get_query_execution ?e qid 1 = Raises (ClientError m)))"
    by (simp add: stub_env_all_fail_def stub_polls_def terminal_states_def)
  have results: "\<forall>qid e. get_query_results ?e qid = Raises e \<longrightarrow> is_ClientError e"
    by (auto simp add: stub_env_all_fail_def)
  have fuel: "(1::nat) < 5" by simp
  have rk: "region ?e = ''ap-southeast-2''" "nba_endpoint ?e = Some ''https://api.example/players''"
    "api_key ?e = Some ''key''"
    by (simp_all add: region_def nba_endpoint_def api_key_def stub_env_all_fail_def)
  note a = main_completes_when_failures_are_caught
    [OF bucket request body start polls results fuel]
  have a1: "fst (main 5 ?e) = Value ()"
    using a by blast
  have a2: "last (snd (main 5 ?e)) = Print ''Failed to query Athena.''"
    using a s p by blast
  have a3: "subseq
        [CreateBucket bucket_name ''ap-southeast-2'',
         CreateDatabase glue_database_name ''Glue database for NBA sports analytics.'',
         HttpGet (Some ''https://api.example/players'') (Some ''key''),
         CreateTable glue_database_name nba_players_table,
         StartQueryExecution ''CREATE DATABASE IF NOT EXISTS nba_analytics''
           glue_database_name athena_output_location,
         StartQueryExecution (count_query glue_database_name glue_table_name)
           glue_database_name athena_output_location]
        (snd (main 5 ?e))"
    using a unfolding rk by blast
  let ?u = stub_env_upload_fails
  let ?ustart = "start_query_execution ?u (count_query glue_database_name glue_table_name)
                   glue_database_name athena_output_location"
  have ubucket: "\<forall>e. create_bucket ?u bucket_name (region ?u) = Raises e \<longrightarrow> is_ClientError e"
    by (simp add: stub_defs stub_env_upload_fails_def)
  have urequest: "\<forall>e. requests_get ?u (nba_endpoint ?u) (api_key ?u) = Raises e \<longrightarrow> is_HTTPError e"
    by (simp add: stub_defs stub_env_upload_fails_def)
  have ubody: "\<forall>resp. requests_get ?u (nba_endpoint ?u) (api_key ?u) = Returns resp
                 \<longrightarrow> (400 \<le> status_code resp \<and> status_code resp < 600) \<or> json_body resp \<noteq> None"
    by (auto simp add: stub_defs stub_env_upload_fails_def)
  have ustart: "\<forall>e. ?ustart = Raises e \<longrightarrow> is_ClientError e"
    by (simp add: stub_defs stub_env_upload_fails_def)
  have upolls: "\<forall>qid. ?ustart = Returns qid \<longrightarrow>
                 (\<forall>j<2. \<exists>s. get_query_execution ?u qid j = Returns s \<and> s \<notin> set terminal_states)
                 \<and> ((\<exists>st. get_query_execution ?u qid 2 = Returns st \<and> st \<in> set terminal_states)
                    \<or> (\<exists>m. get_query_execution ?u qid 2 = Raises (ClientError m)))"
    by (simp add: stub_env_upload_fails_def stub_env_def stub_polls_def terminal_states_def
        less_Suc_eq numeral_2_eq_2)
  have uresults: "\<forall>qid e. get_query_results ?u qid = Raises e \<longrightarrow> is_ClientError e"
    by (auto simp add: stub_defs stub_env_upload_fails_def)
  have ufuel: "(2::nat) < 5" by simp
  have urk: "region ?u = ''ap-southeast-2''" "nba_endpoint ?u = Some ''https://api.example/players''"
    "api_key ?u = Some ''key''" "json_dumps ?u = stub_dumps"
    by (simp_all add: region_def nba_endpoint_def api_key_def stub_env_def stub_env_upload_fails_def)
  note u = main_completes_when_failures_are_caught
    [OF ubucket urequest ubody ustart upolls uresults ufuel]
  have u1: "fst (main 5 ?u) = Value ()"
    using u by blast
  have uf: "fst (fetch_nba_players ?u (api_key ?u) (nba_endpoint ?u)) = Value (JArr [player 1, player 2])"
    by (simp add: fetch_nba_players_eq api_key_def nba_endpoint_def stub_env_def
        stub_env_upload_fails_def stub_response_def)
  from u obtain d where d: "fst (fetch_nba_players ?u (api_key ?u) (nba_endpoint ?u)) = Value d"
    and w: "\<forall>recs. truthy d \<and> py_iter d = (Value recs, []) \<longrightarrow>
              subseq
                [CreateBucket bucket_name (region ?u),
                 CreateDatabase glue_database_name ''Glue database for NBA sports analytics.'',
                 HttpGet (nba_endpoint ?u) (api_key ?u),
                 PutObject bucket_name file_key (str_join newline (map (json_dumps ?u) recs)),
                 CreateTable glue_database_name nba_players_table,
                 StartQueryExecution ''CREATE DATABASE IF NOT EXISTS nba_analytics''
                   glue_database_name athena_output_location,
                 StartQueryExecution (count_query glue_database_name glue_table_name)
                   glue_database_name athena_output_location]
                (snd (main 5 ?u))"
    by blast
  from d uf have "d = JArr [player 1, player 2]" by simp
  then have "truthy d \<and> py_iter d = (Value [player 1, player 2], [])"
    by (simp add: ret_def)
  with w have u2: "subseq
        [CreateBucket bucket_name ''ap-southeast-2'',
         CreateDatabase glue_database_name ''Glue database for NBA sports analytics.'',
         HttpGet (Some ''https://api.example/players'') (Some ''key''),
         PutObject bucket_name file_key (str_join newline (map stub_dumps [player 1, player 2])),
         CreateTable glue_database_name nba_players_table,
         StartQueryExecution ''CREATE DATABASE IF NOT EXISTS nba_analytics''
           glue_database_name athena_output_location,
         StartQueryExecution (count_query glue_database_name glue_table_name)
           glue_database_name athena_output_location]
        (snd (main 5 ?u))"
    unfolding urk by blast
  from a1 a2 a3 u1 u2 show ?thesis by blast
qed

text \<open>
  A failure that the handler of its step does not catch ends the run there: missing AWS
  credentials at the creation of the bucket, a connection error at the fetch. And a query
  that stays in \<^verbatim>\<open>RUNNING\<close> keeps \<^verbatim>\<open>main\<close> in the polling loop, whatever the fuel.
\<close>

theorem main_aborts_counterexample:
  "main 5 stub_env_no_credentials =
     (Raised (OtherError ''NoCredentialsError''),
      [Print ''Setting up data lake for NBA sports analytics...'',
       CreateBucket bucket_name ''ap-southeast-2''])
   \<and> fst (main 5 stub_env_offline) = Raised (OtherError ''ConnectionError'')
   \<and> CreateTable glue_database_name nba_players_table \<notin> set (snd (main 5 stub_env_offline))
   \<and> (\<forall>fuel. fst (main fuel stub_env_running) = Running)"
proof -
  let ?e = stub_env_running
  have b: "fst (create_s3_bucket ?e bucket_name (region ?e)) = Value ()"
    by (simp add: model_defs stub_defs)
  have f: "fst (fetch_nba_players ?e (api_key ?e) (nba_endpoint ?e)) = Value (JArr [player 1, player 2])"
    by (simp add: model_defs stub_env_running_def stub_env_def stub_response_def)
  have s: "start_query_execution ?e (count_query glue_database_name glue_table_name)
           glue_database_name athena_output_location = Returns ''q-1''"
    by (simp add: stub_env_running_def stub_env_def)
  have p: "\<forall>j. \<exists>s. get_query_execution ?e ''q-1'' j = Returns s \<and> s \<notin> set terminal_states"
    by (simp add: stub_env_running_def stub_polls_def terminal_states_def)
  have r: "\<forall>fuel. fst (main fuel ?e) = Running"
    using main_keeps_polling [OF b f s p] by simp
  have a: "main 5 stub_env_no_credentials =
     (Raised (OtherError ''NoCredentialsError''),
      [Print ''Setting up data lake for NBA sports analytics...'',
       CreateBucket bucket_name ''ap-southeast-2''])
   \<and> fst (main 5 stub_env_offline) = Raised (OtherError ''ConnectionError'')
   \<and> CreateTable glue_database_name nba_players_table \<notin> set (snd (main 5 stub_env_offline))"
    by (simp add: model_defs stub_defs)
  from a r show ?thesis by simp
qed

text \<open>
  C4 (as amended). For every response with a 4xx or 5xx status \<^verbatim>\<open>fetch_nba_players\<close>
  prints the error and returns \<^verbatim>\<open>None\<close> instead of raising; \<^verbatim>\<open>main\<close> then does not
  call \<^verbatim>\<open>upload_data_to_s3\<close> (the creation of the table is the event right after the
  error line of the fetch, and no object is put) and goes on with the table, the Athena
  configuration and the query.
\<close>

theorem fetch_nba_players_http_error_gives_no_data:
  assumes "requests_get env endpoint key = Returns resp"
    and "400 \<le> status_code resp" and "status_code resp < 600"
  shows "fetch_nba_players env key endpoint =
      (Value JNull,
       [PrintHeaders key, HttpGet endpoint key,
        Print (''Error while fetching NBA players data: '' @ error_text resp)])
    \<and> (key = api_key env \<and> endpoint = nba_endpoint env
        \<and> fst (create_s3_bucket env bucket_name (region env)) = Value () \<longrightarrow>
        prefix
          (Print ''Setting up data lake for NBA sports analytics...''
           # snd (create_s3_bucket env bucket_name (region env))
           @ Sleep 5
           # snd (create_glue_database env)
           @ [PrintHeaders key, HttpGet endpoint key,
              Print (''Error while fetching NBA players data: '' @ error_text resp)]
           @ snd (create_glue_table env)
           @ snd (configure_athena env)
           @ [Print ''Data lake setup complete.'',
              StartQueryExecution (count_query glue_database_name glue_table_name)
                glue_database_name athena_output_location])
          (snd (main fuel env))
        \<and> sublist
            [PrintHeaders key, HttpGet endpoint key,
             Print (''Error while fetching NBA players data: '' @ error_text resp),
             CreateTable glue_database_name nba_players_table]
            (snd (main fuel env))
        \<and> filter is_PutObject (snd (main fuel env)) = []
        \<and> subseq
            [PrintHeaders key, HttpGet endpoint key,
             Print (''Error while fetching NBA players data: '' @ error_text resp),
             CreateTable glue_database_name nba_players_table,
             StartQueryExecution ''CREATE DATABASE IF NOT EXISTS nba_analytics''
               glue_database_name athena_output_location,
             StartQueryExecution (count_query glue_database_name glue_table_name)
               glue_database_name athena_output_location]
            (snd (main fuel env)))"
proof -
  have f: "fetch_nba_players env key endpoint =
      (Value JNull,
       [PrintHeaders key, HttpGet endpoint key,
        Print (''Error while fetching NBA players data: '' @ error_text resp)])"
    using assms by (simp add: fetch_nba_players_eq)
  show ?thesis
  proof (intro conjI impI)
    show "fetch_nba_players env key endpoint =
      (Value JNull,
       [PrintHeaders key, HttpGet endpoint key,
        Print (''Error while fetching NBA players data: '' @ error_text resp)])"
      by (rule f)
  next
    assume a: "key = api_key env \<and> endpoint = nba_endpoint env
        \<and> fst (create_s3_bucket env bucket_name (region env)) = Value ()"
    then have b: "fst (create_s3_bucket env bucket_name (region env)) = Value ()"
      and g: "fst (fetch_nba_players env (api_key env) (nba_endpoint env)) = Value JNull"
      and t: "snd (fetch_nba_players env (api_key env) (nba_endpoint env)) =
        [PrintHeaders key, HttpGet endpoint key,
         Print (''Error while fetching NBA players data: '' @ error_text resp)]"
      using f by simp_all
    have n: "\<not> truthy JNull" by simp
    show "prefix
          (Print ''Setting up data lake for NBA sports analytics...''
           # snd (create_s3_bucket env bucket_name (region env))
           @ Sleep 5
           # snd (create_glue_database env)
           @ [PrintHeaders key, HttpGet endpoint key,
              Print (''Error while fetching NBA players data: '' @ error_text resp)]
           @ snd (create_glue_table env)
           @ snd (configure_athena env)
           @ [Print ''Data lake setup complete.'',
              StartQueryExecution (count_query glue_database_name glue_table_name)
                glue_database_name athena_output_location])
          (snd (main fuel env))"
      using main_prefix_after_falsy_fetch [OF b g n, of fuel] unfolding t .
    show "sublist
            [PrintHeaders key, HttpGet endpoint key,
             Print (''Error while fetching NBA players data: '' @ error_text resp),
             CreateTable glue_database_name nba_players_table]
            (snd (main fuel env))"
      using main_table_follows_falsy_fetch [OF b g n, of fuel] unfolding t by simp
    show "filter is_PutObject (snd (main fuel env)) = []"
      by (rule main_after_falsy_fetch(1) [OF b g n])
    show "subseq
            [PrintHeaders key, HttpGet endpoint key,
             Print (''Error while fetching NBA players data: '' @ error_text resp),
             CreateTable glue_database_name nba_players_table,
             StartQueryExecution ''CREATE DATABASE IF NOT EXISTS nba_analytics''
               glue_database_name athena_output_location,
             StartQueryExecution (count_query glue_database_name glue_table_name)
               glue_database_name athena_output_location]
            (snd (main fuel env))"
      using main_after_falsy_fetch(2) [OF b g n, of fuel] a f by simp
  qed
qed

theorem fetch_nba_players_http_error_gives_no_data_witness:
  "fetch_nba_players stub_env_not_found (Some ''key'') (Some ''https://api.example/players'') =
      (Value JNull,
       [PrintHeaders (Some ''key''), HttpGet (Some ''https://api.example/players'') (Some ''key''),
        Print ''Error while fetching NBA players data: 404 Client Error: Not Found''])
   \<and> sublist
       [PrintHeaders (Some ''key''), HttpGet (Some ''https://api.example/players'') (Some ''key''),
        Print ''Error while fetching NBA players data: 404 Client Error: Not Found'',
        CreateTable glue_database_name nba_players_table]
       (snd (main 5 stub_env_not_found))
   \<and> filter is_PutObject (snd (main 5 stub_env_not_found)) = []
   \<and> subseq
       [PrintHeaders (Some ''key''), HttpGet (Some ''https://api.example/players'') (Some ''key''),
        Print ''Error while fetching NBA players data: 404 Client Error: Not Found'',
        CreateTable glue_database_name nba_players_table,
        StartQueryExecution ''CREATE DATABASE IF NOT EXISTS nba_analytics''
          glue_database_name athena_output_location,
        StartQueryExecution (count_query glue_database_name glue_table_name)
          glue_database_name athena_output_location]
       (snd (main 5 stub_env_not_found))"
proof -
  let ?e = stub_env_not_found
  let ?r = "\<lparr> status_code = 404, error_text = ''404 Client Error: Not Found'', json_body = None \<rparr>"
  have g: "requests_get ?e (Some ''https://api.example/players'') (Some ''key'') = Returns ?r"
    by (simp add: stub_defs)
  have s: "400 \<le> status_code ?r" "status_code ?r < 600" by simp_all
  have k: "Some ''key'' = api_key ?e \<and> Some ''https://api.example/players'' = nba_endpoint ?e
        \<and> fst (create_s3_bucket ?e bucket_name (region ?e)) = Value ()"
    by (simp add: model_defs stub_defs)
  show ?thesis
    using fetch_nba_players_http_error_gives_no_data [OF g s, of 5] k by simp
qed

text \<open>
  A connection error of \<^verbatim>\<open>requests.get\<close> is not an \<^verbatim>\<open>HTTPError\<close>: it leaves
  \<^verbatim>\<open>fetch_nba_players\<close> and ends \<^verbatim>\<open>main\<close>. A 304 answer is no error for
  \<^verbatim>\<open>raise_for_status\<close>, and decoding its empty body raises as well.
\<close>

theorem fetch_failure_counterexample:
  "fetch_nba_players stub_env_offline (Some ''key'') (Some ''https://api.example/players'') =
     (Raised (OtherError ''ConnectionError''),
      [PrintHeaders (Some ''key''), HttpGet (Some ''https://api.example/players'') (Some ''key'')])
   \<and> main 5 stub_env_offline =
     (Raised (OtherError ''ConnectionError''),
      [Print ''Setting up data lake for NBA sports analytics...'',
       CreateBucket bucket_name ''ap-southeast-2'',
       Print (''Bucket '' @ bucket_name @ '' created successfully.''),
       Sleep 5,
       CreateDatabase glue_database_name ''Glue database for NBA sports analytics.'',
       Print (''Glue database '' @ squote @ glue_database_name @ squote @ '' created successfully.''),
       PrintHeaders (Some ''key''),
       HttpGet (Some ''https://api.example/players'') (Some ''key'')])
   \<and> fetch_nba_players stub_env_not_modified (Some ''key'') (Some ''https://api.example/players'') =
     (Raised (OtherError ''JSONDecodeError''),
      [PrintHeaders (Some ''key''), HttpGet (Some ''https://api.example/players'') (Some ''key'')])"
  by (simp add: model_defs stub_defs)

text \<open>
  C5 (as amended). The program has no configuration check: whatever the credential and
  the endpoint are, absent ones included, it prints the loaded key and builds the three
  AWS clients; once these are built it runs \<^verbatim>\<open>main\<close>, which starts with the call that
  creates the bucket. (When the first client cannot be built, the program ends there
  with that exception.)
\<close>

theorem program_has_no_configuration_check:
  "(boto3_client env ''s3'' (region env) = Returns ()
      \<and> boto3_client env ''glue'' (region env) = Returns ()
      \<and> boto3_client env ''athena'' (region env) = Returns () \<longrightarrow>
      program fuel env =
        (fst (main fuel env),
         [Print (''Loaded API Key: '' @ str_opt (api_key env)),
          Boto3Client ''s3'' (region env),
          Boto3Client ''glue'' (region env),
          Boto3Client ''athena'' (region env)] @ snd (main fuel env)))
   \<and> prefix [Print ''Setting up data lake for NBA sports analytics...'',
              CreateBucket bucket_name (region env)]
        (snd (main fuel env))
   \<and> (\<forall>e. boto3_client env ''s3'' (region env) = Raises e \<longrightarrow>
        program fuel env =
          (Raised e,
           [Print (''Loaded API Key: '' @ str_opt (api_key env)),
            Boto3Client ''s3'' (region env)]))"
proof (intro conjI impI allI)
  assume "boto3_client env ''s3'' (region env) = Returns ()
      \<and> boto3_client env ''glue'' (region env) = Returns ()
      \<and> boto3_client env ''athena'' (region env) = Returns ()"
  then show "program fuel env =
      (fst (main fuel env),
       [Print (''Loaded API Key: '' @ str_opt (api_key env)),
        Boto3Client ''s3'' (region env),
        Boto3Client ''glue'' (region env),
        Boto3Client ''athena'' (region env)] @ snd (main fuel env))"
    by (simp add: program_def run_simps)
next
  show "prefix [Print ''Setting up data lake for NBA sports analytics...'',
               CreateBucket bucket_name (region env)]
         (snd (main fuel env))"
    by (simp add: main_def snd_and_then fst_and_then say_def create_s3_bucket_eq
        split: outcome.splits)
next
  fix e
  assume "boto3_client env ''s3'' (region env) = Raises e"
  then show "program fuel env =
          (Raised e,
           [Print (''Loaded API Key: '' @ str_opt (api_key env)),
            Boto3Client ''s3'' (region env)])"
    by (simp add: program_def run_simps)
qed

theorem program_has_no_configuration_check_witness:
  "api_key stub_env_unconfigured = None
   \<and> nba_endpoint stub_env_unconfigured = None
   \<and> prefix [Print ''Loaded API Key: None'',
              Boto3Client ''s3'' ''ap-southeast-2'',
              Boto3Client ''glue'' ''ap-southeast-2'',
              Boto3Client ''athena'' ''ap-southeast-2'',
              Print ''Setting up data lake for NBA sports analytics...'',
              CreateBucket bucket_name ''ap-southeast-2'']
        (snd (program 5 stub_env_unconfigured))
   \<and> program 5 stub_env_empty_region =
        (Raised (OtherError ''ValueError''), [Print ''Loaded API Key: key'', Boto3Client ''s3'' []])"
proof -
  let ?e = stub_env_unconfigured
  have r: "region ?e = ''ap-southeast-2''" and k: "api_key ?e = None" and n: "nba_endpoint ?e = None"
    by (simp_all add: region_def api_key_def nba_endpoint_def stub_defs)
  have c: "boto3_client ?e ''s3'' (region ?e) = Returns ()
      \<and> boto3_client ?e ''glue'' (region ?e) = Returns ()
      \<and> boto3_client ?e ''athena'' (region ?e) = Returns ()"
    by (simp add: stub_defs)
  have "prefix ([Print ''Loaded API Key: None'',
              Boto3Client ''s3'' ''ap-southeast-2'',
              Boto3Client ''glue'' ''ap-southeast-2'',
              Boto3Client ''athena'' ''ap-southeast-2''] @
             [Print ''Setting up data lake for NBA sports analytics...'',
              CreateBucket bucket_name ''ap-southeast-2''])
        (snd (program 5 ?e))"
    using program_has_no_configuration_check [of ?e 5] c
    by (simp add: r k)
  moreover
  let ?z = stub_env_empty_region
  have z: "region ?z = []" "api_key ?z = Some ''key''"
    "boto3_client ?z ''s3'' (region ?z) = Raises (OtherError ''ValueError'')"
    by (simp_all add: region_def api_key_def stub_defs)
  have "program 5 ?z =
        (Raised (OtherError ''ValueError''), [Print ''Loaded API Key: key'', Boto3Client ''s3'' []])"
    using program_has_no_configuration_check [of ?z 5] z by simp
  ultimately show ?thesis using k n by simp
qed

text \<open>
  With neither the credential nor the endpoint set, the bucket and the database are
  created before the request fails; no configuration error is reported.
\<close>

theorem missing_configuration_counterexample:
  "program 5 stub_env_unconfigured =
     (Raised (OtherError ''MissingSchema''),
      [Print ''Loaded API Key: None'',
       Boto3Client ''s3'' ''ap-southeast-2'',
       Boto3Client ''glue'' ''ap-southeast-2'',
       Boto3Client ''athena'' ''ap-southeast-2'',
       Print ''Setting up data lake for NBA sports analytics...'',
       CreateBucket bucket_name ''ap-southeast-2'',
       Print (''Bucket '' @ bucket_name @ '' created successfully.''),
       Sleep 5,
       CreateDatabase glue_database_name ''Glue database for NBA sports analytics.'',
       Print (''Glue database '' @ squote @ glue_database_name @ squote @ '' created successfully.''),
       PrintHeaders None,
       HttpGet None None])"
  by (simp add: model_defs stub_defs)

text \<open>
  C6 (as amended). In every run in which the fetch returns an empty collection or
  \<^verbatim>\<open>None\<close>, \<^verbatim>\<open>upload_data_to_s3\<close> is not called (the creation of the table is the event
  right after those of the fetch, and no object is put), and the creation of the table, the
  Athena configuration and the submission of the query still take place, in this order.
\<close>

theorem empty_fetch_skips_upload_only:
  assumes "fst (create_s3_bucket env bucket_name (region env)) = Value ()"
    and "fst (fetch_nba_players env (api_key env) (nba_endpoint env)) = Value d"
    and "\<not> truthy d"
  shows "prefix
      (Print ''Setting up data lake for NBA sports analytics...''
       # snd (create_s3_bucket env bucket_name (region env))
       @ Sleep 5
       # snd (create_glue_database env)
       @ snd (fetch_nba_players env (api_key env) (nba_endpoint env))
       @ snd (create_glue_table env)
       @ snd (configure_athena env)
       @ [Print ''Data lake setup complete.'',
          StartQueryExecution (count_query glue_database_name glue_table_name)
            glue_database_name athena_output_location])
      (snd (main fuel env))
    \<and> sublist
        (snd (fetch_nba_players env (api_key env) (nba_endpoint env))
         @ [CreateTable glue_database_name nba_players_table])
        (snd (main fuel env))
    \<and> filter is_PutObject (snd (main fuel env)) = []
    \<and> subseq
        [CreateTable glue_database_name nba_players_table,
         StartQueryExecution ''CREATE DATABASE IF NOT EXISTS nba_analytics''
           glue_database_name athena_output_location,
         StartQueryExecution (count_query glue_database_name glue_table_name)
           glue_database_name athena_output_location]
        (snd (main fuel env))"
  using main_after_falsy_fetch [OF assms, of fuel] main_prefix_after_falsy_fetch [OF assms, of fuel]
    main_table_follows_falsy_fetch [OF assms, of fuel]
  by (auto dest: subseq_order.trans [OF subseq_drop_many [OF subseq_order.refl]])

theorem empty_fetch_skips_upload_only_witness:
  "fetch_nba_players stub_env_no_data (api_key stub_env_no_data) (nba_endpoint stub_env_no_data)
     = (Value (JArr []),
        [PrintHeaders (Some ''key''), HttpGet (Some ''https://api.example/players'') (Some ''key'')])
   \<and> sublist
        [PrintHeaders (Some ''key''), HttpGet (Some ''https://api.example/players'') (Some ''key''),
         CreateTable glue_database_name nba_players_table]
        (snd (main 5 stub_env_no_data))
   \<and> filter is_PutObject (snd (main 5 stub_env_no_data)) = []
   \<and> subseq
        [CreateTable glue_database_name nba_players_table,
         StartQueryExecution ''CREATE DATABASE IF NOT EXISTS nba_analytics''
           glue_database_name athena_output_location,
         StartQueryExecution (count_query glue_database_name glue_table_name)
           glue_database_name athena_output_location]
        (snd (main 5 stub_env_no_data))
   \<and> filter is_PutObject (snd (main 5 stub_env)) \<noteq> []"
proof -
  let ?e = stub_env_no_data
  have b: "fst (create_s3_bucket ?e bucket_name (region ?e)) = Value ()"
    by (simp add: model_defs stub_defs)
  have g: "fetch_nba_players ?e (api_key ?e) (nba_endpoint ?e)
     = (Value (JArr []),
        [PrintHeaders (Some ''key''), HttpGet (Some ''https://api.example/players'') (Some ''key'')])"
    by (simp add: model_defs stub_defs)
  then have f: "fst (fetch_nba_players ?e (api_key ?e) (nba_endpoint ?e)) = Value (JArr [])"
    by simp
  have n: "\<not> truthy (JArr [])" by simp
  have u: "filter is_PutObject (snd (main 5 stub_env)) \<noteq> []"
    by (simp add: model_defs stub_defs eval_nat_numeral)
  show ?thesis
    using empty_fetch_skips_upload_only [OF b f n, of 5] u unfolding g by simp
qed

text \<open>
  A fetch that fails with a connection error produces no data either, but it raises: no
  object is put, and neither the table step nor the query step is reached.
\<close>

theorem failed_fetch_counterexample:
  "fst (fetch_nba_players stub_env_offline (api_key stub_env_offline) (nba_endpoint stub_env_offline))
     = Raised (OtherError ''ConnectionError'')
   \<and> filter is_PutObject (snd (main 5 stub_env_offline)) = []
   \<and> CreateTable glue_database_name nba_players_table \<notin> set (snd (main 5 stub_env_offline))
   \<and> StartQueryExecution (count_query glue_database_name glue_table_name)
        glue_database_name athena_output_location \<notin> set (snd (main 5 stub_env_offline))"
  by (simp add: model_defs stub_defs)

text \<open>
  C7. When the creation of the bucket fails with the \<^verbatim>\<open>ClientError\<close> boto3 raises for a
  bucket that already exists, \<^verbatim>\<open>create_s3_bucket\<close> prints the error and returns normally,
  and \<^verbatim>\<open>main\<close> goes on with the next step, the creation of the Glue database.
\<close>

theorem create_s3_bucket_already_exists_continues:
  assumes "create_bucket env bucket_name (region env) = Raises (ClientError m)"
  shows "create_s3_bucket env bucket_name (region env) =
      (Value (), [CreateBucket bucket_name (region env), Print (''Error while creating bucket: '' @ m)])
    \<and> prefix [Print ''Setting up data lake for NBA sports analytics...'',
               CreateBucket bucket_name (region env),
               Print (''Error while creating bucket: '' @ m),
               Sleep 5,
               CreateDatabase glue_database_name ''Glue database for NBA sports analytics.'']
         (snd (main fuel env))"
proof -
  have b: "create_s3_bucket env bucket_name (region env) =
      (Value (), [CreateBucket bucket_name (region env), Print (''Error while creating bucket: '' @ m)])"
    using assms by (simp add: create_s3_bucket_eq)
  show ?thesis
    by (simp add: b main_def snd_and_then say_def sleep_def create_glue_database_eq)
qed

theorem create_s3_bucket_already_exists_continues_witness:
  "create_s3_bucket stub_env_exists bucket_name ''ap-southeast-2'' =
      (Value (), [CreateBucket bucket_name ''ap-southeast-2'',
                  Print ''Error while creating bucket: BucketAlreadyOwnedByYou''])
    \<and> prefix [Print ''Setting up data lake for NBA sports analytics...'',
               CreateBucket bucket_name ''ap-southeast-2'',
               Print ''Error while creating bucket: BucketAlreadyOwnedByYou'',
               Sleep 5,
               CreateDatabase glue_database_name ''Glue database for NBA sports analytics.'']
         (snd (main 5 stub_env_exists))
    \<and> fst (main 5 stub_env_exists) = Value ()"
proof -
  have r: "region stub_env_exists = ''ap-southeast-2''"
    by (simp add: region_def stub_defs)
  have a: "create_bucket stub_env_exists bucket_name (region stub_env_exists)
             = Raises (ClientError ''BucketAlreadyOwnedByYou'')"
    by (simp add: stub_defs)
  have d: "fst (main 5 stub_env_exists) = Value ()"
    by (simp add: model_defs stub_defs eval_nat_numeral)
  show ?thesis
    using create_s3_bucket_already_exists_continues [OF a, of 5] d by (simp add: r)
qed

text \<open>
  C8. For a list of \<open>N\<close> records \<^verbatim>\<open>convert_to_line_delimited_json\<close> returns the
  serializations of the records joined by single newlines, a value that depends on the
  records and on \<^verbatim>\<open>json.dumps\<close> only (its one effect is a fixed progress line on the
  console): the empty payload for no record and, when no
  serialization is empty or contains a newline (as is the case for \<^verbatim>\<open>json.dumps\<close>),
  exactly \<open>N\<close> lines, the \<open>i\<close>-th being the serialization of the \<open>i\<close>-th record, with no
  newline at the end.
\<close>

theorem convert_to_line_delimited_json_lines:
  "convert_to_line_delimited_json dumps (JArr records)
     = (Value (str_join newline (map dumps records)),
        [Print ''Converting data to line-delimited JSON format...''])
   \<and> (records = [] \<longrightarrow> str_join newline (map dumps records) = [])
   \<and> (records \<noteq> [] \<and> (\<forall>r\<in>set records. dumps r \<noteq> [] \<and> CHR 0x0A \<notin> set (dumps r)) \<longrightarrow>
        lines_of (str_join newline (map dumps records)) = map dumps records
        \<and> length (lines_of (str_join newline (map dumps records))) = length records
        \<and> last (str_join newline (map dumps records)) \<noteq> CHR 0x0A)"
proof (intro conjI impI)
  show "convert_to_line_delimited_json dumps (JArr records)
     = (Value (str_join newline (map dumps records)),
        [Print ''Converting data to line-delimited JSON format...''])"
    by (simp add: convert_to_line_delimited_json_eq ret_def)
  show "records = [] \<Longrightarrow> str_join newline (map dumps records) = []"
    by simp
next
  assume a: "records \<noteq> [] \<and> (\<forall>r\<in>set records. dumps r \<noteq> [] \<and> CHR 0x0A \<notin> set (dumps r))"
  then have l: "lines_of (str_join newline (map dumps records)) = map dumps records"
    by (intro lines_of_str_join) auto
  then show "lines_of (str_join newline (map dumps records)) = map dumps records" .
  from l show "length (lines_of (str_join newline (map dumps records))) = length records"
    by simp
  from a have n: "map dumps records \<noteq> []" "last (map dumps records) \<noteq> []"
    by (auto simp add: last_map)
  have "last (str_join newline (map dumps records)) = last (last (map dumps records))"
    using n by (rule last_str_join)
  moreover have "last (last (map dumps records)) \<in> set (dumps (last records))"
    using a n by (simp add: last_map)
  ultimately show "last (str_join newline (map dumps records)) \<noteq> CHR 0x0A"
    using a by (metis last_in_set)
qed

theorem convert_to_line_delimited_json_lines_witness:
  "convert_to_line_delimited_json stub_dumps (JArr [player 1, player 2]) =
     (Value (''{'' @ dquote @ ''PlayerID'' @ dquote @ '': 1}'' @ newline
             @ ''{'' @ dquote @ ''PlayerID'' @ dquote @ '': 2}''),
      [Print ''Converting data to line-delimited JSON format...''])
   \<and> lines_of (str_join newline (map stub_dumps [player 1, player 2]))
       = [''{'' @ dquote @ ''PlayerID'' @ dquote @ '': 1}'', ''{'' @ dquote @ ''PlayerID'' @ dquote @ '': 2}'']
   \<and> fst (convert_to_line_delimited_json stub_dumps (JArr [])) = Value []"
proof -
  have h: "[player 1, player 2] \<noteq> [] \<and>
     (\<forall>r\<in>set [player 1, player 2]. stub_dumps r \<noteq> [] \<and> CHR 0x0A \<notin> set (stub_dumps r))"
    by (simp add: stub_dumps_def player_def dquote_def)
  have e: "convert_to_line_delimited_json stub_dumps (JArr [player 1, player 2]) =
     (Value (''{'' @ dquote @ ''PlayerID'' @ dquote @ '': 1}'' @ newline
             @ ''{'' @ dquote @ ''PlayerID'' @ dquote @ '': 2}''),
      [Print ''Converting data to line-delimited JSON format...''])"
    by (simp add: model_defs stub_defs)
  show ?thesis
    using convert_to_line_delimited_json_lines [of stub_dumps "[player 1, player 2]"]
      convert_to_line_delimited_json_lines [of stub_dumps "[]"] h e
    by (simp add: stub_dumps_def player_def)
qed

text \<open>
  C9 (as amended). In every run the object is put under the key
  \<^verbatim>\<open>raw-data/nba_player_data.jsonl\<close> of the configured bucket, and the table's location
  is the \<^verbatim>\<open>raw-data/\<close> prefix of the same bucket: the location is a proper prefix of the
  object's address, not equal to it.
\<close>

theorem table_location_is_prefix_of_uploaded_object:
  "(\<forall>b k body. PutObject b k body \<in> set (snd (main fuel env)) \<longrightarrow>
      b = bucket_name \<and> k = file_key)
   \<and> (\<forall>d t. CreateTable d t \<in> set (snd (main fuel env)) \<longrightarrow>
      Location t = s3_uri bucket_name ''raw-data/'')
   \<and> strict_prefix (s3_uri bucket_name ''raw-data/'') (s3_uri bucket_name file_key)"
proof (intro conjI allI impI)
  fix b k body
  assume "PutObject b k body \<in> set (snd (main fuel env))"
  then have "storage_consistent (PutObject b k body)"
    using main_storage_consistent [of fuel env] unfolding list_all_iff by blast
  then show "b = bucket_name" "k = file_key" by simp_all
next
  fix d t
  assume "CreateTable d t \<in> set (snd (main fuel env))"
  then have "storage_consistent (CreateTable d t)"
    using main_storage_consistent [of fuel env] unfolding list_all_iff by blast
  then show "Location t = s3_uri bucket_name ''raw-data/''" by simp
next
  show "strict_prefix (s3_uri bucket_name ''raw-data/'') (s3_uri bucket_name file_key)"
    by (simp add: s3_uri_def file_key_def strict_prefix_def)
qed

theorem table_location_is_prefix_of_uploaded_object_witness:
  "PutObject bucket_name file_key
        (''{'' @ dquote @ ''PlayerID'' @ dquote @ '': 1}'' @ newline
          @ ''{'' @ dquote @ ''PlayerID'' @ dquote @ '': 2}'') \<in> set (snd (main 5 stub_env))
   \<and> CreateTable glue_database_name nba_players_table \<in> set (snd (main 5 stub_env))
   \<and> Location nba_players_table = s3_uri bucket_name ''raw-data/''
   \<and> strict_prefix (Location nba_players_table) (s3_uri bucket_name file_key)"
proof -
  have m: "PutObject bucket_name file_key
        (''{'' @ dquote @ ''PlayerID'' @ dquote @ '': 1}'' @ newline
          @ ''{'' @ dquote @ ''PlayerID'' @ dquote @ '': 2}'') \<in> set (snd (main 5 stub_env))"
   and c: "CreateTable glue_database_name nba_players_table \<in> set (snd (main 5 stub_env))"
    by (simp_all add: model_defs stub_defs eval_nat_numeral)
  show ?thesis
    using table_location_is_prefix_of_uploaded_object [of 5 stub_env] m c by auto
qed

text \<open>The table's location and the address of the uploaded object are different strings.\<close>

theorem table_location_counterexample:
  "Location nba_players_table = ''s3://bai-xu-sports-analytics-data-lake/raw-data/''
   \<and> s3_uri bucket_name file_key
       = ''s3://bai-xu-sports-analytics-data-lake/raw-data/nba_player_data.jsonl''
   \<and> Location nba_players_table \<noteq> s3_uri bucket_name file_key"
  by (simp add: nba_players_table_def s3_uri_def bucket_name_def file_key_def)



end
